theory Spec2Isabelle
  imports Complex_Main "HOL-Library.Log_Nat" "HOL-Library.Code_Target_Nat"
begin

section \<open>Data model\<close>

text \<open>
  The services of \<^verbatim>\<open>product_service.py\<close> and \<^verbatim>\<open>transaction_service.py\<close> work on
  the tables declared in \<^verbatim>\<open>models/product.py\<close> and \<^verbatim>\<open>models/transaction.py\<close>.
  A table is the list of its rows, a query \<^verbatim>\<open>select(T).where(c)\<close> is \<open>filter c\<close> on that
  list, and an \<^verbatim>\<open>update(T).where(c).values(...)\<close> rewrites every row that satisfies
  \<open>c\<close>. The value of a Python \<^verbatim>\<open>Decimal\<close> is a rational. In the ledger and in
  \<open>convert_units\<close> sums, differences, products, quotients, comparisons and \<^verbatim>\<open>max\<close> are
  those of the rationals, and a division by zero raises; the rounding of products and
  quotients to the 28 digits of the decimal context is the subject of
  \<open>convert_units_in_context\<close>. The scale of a \<^verbatim>\<open>Numeric\<close> column is not modelled.
  A \<^verbatim>\<open>datetime\<close> is a natural number, and the reading of the clock
  (\<^verbatim>\<open>datetime.utcnow()\<close>) is passed to the operations as the argument \<open>now\<close>.

  An operation of a service takes the database and returns its result together with the
  database it leaves; the result is \<open>Inl\<close> of the exception it raises or \<open>Inr\<close> of the
  value it returns. The session is the storage: \<^verbatim>\<open>add\<close>, \<^verbatim>\<open>flush\<close>, \<^verbatim>\<open>commit\<close> and
  \<^verbatim>\<open>refresh\<close> write and read rows and do not fail. The response that \<^verbatim>\<open>from_orm\<close>
  builds from a stock row is the row; what it does with a row of \<^verbatim>\<open>sale_transactions\<close>
  is \<open>from_orm\<close> below.
  The columns \<^verbatim>\<open>created_at\<close> and \<^verbatim>\<open>updated_at\<close> of the timestamp mixin, which no
  operation below reads, are left out.
\<close>

type_synonym decimal = rat
type_synonym datetime = nat

datatype TransactionStatus = PENDING | CONFIRMED | CANCELLED | FAILED

text \<open>The two messages of \<^verbatim>\<open>InsufficientStockError\<close>.\<close>

datatype insufficient_stock =
    StockLevelNotFound
  | Insufficient decimal decimal

text \<open>
  The four messages with which \<^verbatim>\<open>transaction_service.py\<close> raises \<^verbatim>\<open>ValueError\<close>:
  an absent product, an absent transaction, and a confirm or a cancel of a transaction
  whose status is not pending.
\<close>

datatype value_error =
    ProductDoesNotExist int
  | TransactionDoesNotExist int
  | CannotConfirm TransactionStatus
  | CannotCancel TransactionStatus

text \<open>
  The exceptions: those of \<^verbatim>\<open>app/exceptions.py\<close> that the two services raise,
  \<^verbatim>\<open>ValueError\<close>, the \<^verbatim>\<open>MultipleResultsFound\<close> of \<^verbatim>\<open>scalar_one_or_none\<close>, the decimal
  module's traps for a division by zero and for an overflow, and the \<^verbatim>\<open>ValidationError\<close>
  of the response schema.
\<close>

datatype error =
    InsufficientStockError insufficient_stock
  | InvalidOperationError string string
  | ValueError value_error
  | MultipleResultsFound
  | DecimalDivisionError
  | DecimalOverflow
  | ValidationError

record StockLevel =
  sl_product_id :: int
  sl_location_id :: int
  quantity :: decimal
  reserved_quantity :: decimal
  min_stock_level :: decimal
  max_stock_level :: decimal

record UnitConversion =
  uc_product_id :: int
  uc_from_unit :: string
  uc_to_unit :: string
  conversion_factor :: decimal

text \<open>\<^verbatim>\<open>SaleTransactionBase\<close> of \<^verbatim>\<open>schemas/transaction.py\<close>, the payload of a create.\<close>

record SaleTransactionCreate =
  event_id :: string
  product_id :: int
  location_id :: int
  tx_quantity :: decimal
  unit_type :: string
  converted_quantity :: decimal
  price_per_unit :: decimal
  total_amount :: decimal
  terminal_timestamp :: "datetime option"
  user_id :: "int option"

text \<open>
  A row of \<^verbatim>\<open>sale_transactions\<close>. A \<^verbatim>\<open>SaleTransactionResponse\<close> has the same columns, so
  the row also stands for a response.
\<close>

record SaleTransaction = SaleTransactionCreate +
  tx_id :: int
  status :: TransactionStatus
  processed_at :: "datetime option"

record ReconciliationLog =
  log_id :: int
  log_start_time :: datetime
  log_end_time :: datetime
  log_terminal_id :: string
  log_processed_count :: nat
  log_success_count :: nat
  log_failed_count :: nat
  log_status :: string
  log_notes :: "string option"

record ReconciliationResult =
  reconciliation_id :: int
  processed_count :: nat
  success_count :: nat
  failed_count :: nat
  result_status :: string
  result_notes :: "string option"

text \<open>The database: the identifiers of the product rows, and the other tables row by row.\<close>

record db =
  products :: "int list"
  stock_levels :: "StockLevel list"
  unit_conversions :: "UnitConversion list"
  sale_transactions :: "SaleTransaction list"
  reconciliation_logs :: "ReconciliationLog list"

section \<open>Queries\<close>

text \<open>
  \<^verbatim>\<open>Result.scalar_one_or_none()\<close>: no row gives \<^verbatim>\<open>None\<close>, one row gives the row, more
  rows raise \<^verbatim>\<open>MultipleResultsFound\<close>.
\<close>

fun scalar_one_or_none :: "'a list \<Rightarrow> error + 'a option" where
  "scalar_one_or_none [] = Inr None"
| "scalar_one_or_none [x] = Inr (Some x)"
| "scalar_one_or_none (x # y # zs) = Inl MultipleResultsFound"

definition stock_key :: "int \<Rightarrow> int \<Rightarrow> StockLevel \<Rightarrow> bool" where
  "stock_key pid lid s = (sl_product_id s = pid \<and> sl_location_id s = lid)"

definition conversion_key :: "int \<Rightarrow> string \<Rightarrow> string \<Rightarrow> UnitConversion \<Rightarrow> bool" where
  "conversion_key pid fu tu c = (uc_product_id c = pid \<and> uc_from_unit c = fu \<and> uc_to_unit c = tu)"

text \<open>The rows that the \<^verbatim>\<open>where\<close> clause of the stock queries and updates selects.\<close>

definition stock_rows :: "db \<Rightarrow> int \<Rightarrow> int \<Rightarrow> StockLevel list" where
  "stock_rows d pid lid = filter (stock_key pid lid) (stock_levels d)"

definition conversion_rows :: "db \<Rightarrow> int \<Rightarrow> string \<Rightarrow> string \<Rightarrow> UnitConversion list" where
  "conversion_rows d pid fu tu = filter (conversion_key pid fu tu) (unit_conversions d)"

definition get_stock_level :: "db \<Rightarrow> int \<Rightarrow> int \<Rightarrow> error + StockLevel option" where
  "get_stock_level d pid lid = scalar_one_or_none (stock_rows d pid lid)"

text \<open>
  \<^verbatim>\<open>update(StockLevel).where(and_(product_id == pid, location_id == lid)).values(...)\<close>
  followed by the commit.
\<close>

definition update_stock_level :: "db \<Rightarrow> int \<Rightarrow> int \<Rightarrow> (StockLevel \<Rightarrow> StockLevel) \<Rightarrow> db" where
  "update_stock_level d pid lid vals =
     d\<lparr>stock_levels := map (\<lambda>s. if stock_key pid lid s then vals s else s) (stock_levels d)\<rparr>"

section \<open>Unit converter\<close>

definition decimal_div :: "decimal \<Rightarrow> decimal \<Rightarrow> error + decimal" where
  "decimal_div a b = (if b = 0 then Inl DecimalDivisionError else Inr (a / b))"

definition convert_units :: "db \<Rightarrow> int \<Rightarrow> string \<Rightarrow> string \<Rightarrow> decimal \<Rightarrow> error + decimal" where
  "convert_units d pid from_unit to_unit qty =
     (case scalar_one_or_none (conversion_rows d pid from_unit to_unit) of
        Inl e \<Rightarrow> Inl e
      | Inr (Some conversion) \<Rightarrow> Inr (qty * conversion_factor conversion)
      | Inr None \<Rightarrow>
          (case scalar_one_or_none (conversion_rows d pid to_unit from_unit) of
             Inl e \<Rightarrow> Inl e
           | Inr (Some reverse_conversion) \<Rightarrow>
               decimal_div qty (conversion_factor reverse_conversion)
           | Inr None \<Rightarrow>
               if from_unit = to_unit then Inr qty
               else Inl (InvalidOperationError from_unit to_unit)))"

subsection \<open>The arithmetic of the decimal context\<close>

text \<open>
  The application never changes the decimal context, so products and quotients are
  computed in the default one: 28 significant digits, rounding half to even, exponents
  from \<open>Emin\<close> to \<open>Emax\<close>, and traps for a division by zero, an invalid operation and an
  overflow. An operation gives the exact result rounded by the context
  (\<^verbatim>\<open>Decimal._fix\<close>); only the value of the result is modelled, not its exponent.
\<close>

definition Emax :: int where "Emax = 999999"

definition Emin :: int where "Emin = - 999999"

text \<open>
  The adjusted exponent of a value other than zero: the \<open>e\<close> with
  \<open>10 powi e \<le> \<bar>x\<bar> < 10 powi (e + 1)\<close>, found from the numbers of digits of the numerator
  and of the denominator.
\<close>

definition adjusted :: "decimal \<Rightarrow> int" where
  "adjusted x =
     (case quotient_of \<bar>x\<bar> of
        (p, q) \<Rightarrow>
          (let a = int (floorlog 10 (nat p)) - int (floorlog 10 (nat q))
           in if 10 powi a \<le> \<bar>x\<bar> then a else a - 1))"

definition round_half_even :: "decimal \<Rightarrow> int" where
  "round_half_even x =
     (let n = \<lfloor>x\<rfloor>; r = x - of_int n
      in if r < 1 / 2 then n else if 1 / 2 < r then n + 1 else if even n then n else n + 1)"

text \<open>
  The rounding of an exact result \<open>x\<close>. A result whose adjusted exponent is above \<open>Emax\<close>,
  before or after the rounding, raises the overflow. Otherwise the magnitude is rounded
  to a multiple of the quantum, which leaves 28 digits to a result of adjusted exponent
  \<open>Emin\<close> or more and fewer to a smaller, subnormal one; an underflow is not trapped.
\<close>

definition context_round :: "decimal \<Rightarrow> error + decimal" where
  "context_round x =
     (if x = 0 then Inr 0
      else
        (let e = adjusted x in
         if Emax < e then Inl DecimalOverflow
         else
           (let quantum = 10 powi (max e Emin - 27);
                coefficient = round_half_even (\<bar>x\<bar> / quantum)
            in if e = Emax \<and> coefficient = 10 ^ 28 then Inl DecimalOverflow
               else Inr (sgn x * of_int coefficient * quantum))))"

definition decimal_mul :: "decimal \<Rightarrow> decimal \<Rightarrow> error + decimal" where
  "decimal_mul a b = context_round (a * b)"

definition decimal_truediv :: "decimal \<Rightarrow> decimal \<Rightarrow> error + decimal" where
  "decimal_truediv a b = (if b = 0 then Inl DecimalDivisionError else context_round (a / b))"

text \<open>
  \<^verbatim>\<open>convert_units\<close> with the product and the quotient computed in the context. The
  branches are those of \<open>convert_units\<close>, which names the operation of each branch and
  computes it exactly.
\<close>

definition convert_units_in_context ::
    "db \<Rightarrow> int \<Rightarrow> string \<Rightarrow> string \<Rightarrow> decimal \<Rightarrow> error + decimal" where
  "convert_units_in_context d pid from_unit to_unit qty =
     (case scalar_one_or_none (conversion_rows d pid from_unit to_unit) of
        Inl e \<Rightarrow> Inl e
      | Inr (Some conversion) \<Rightarrow> decimal_mul qty (conversion_factor conversion)
      | Inr None \<Rightarrow>
          (case scalar_one_or_none (conversion_rows d pid to_unit from_unit) of
             Inl e \<Rightarrow> Inl e
           | Inr (Some reverse_conversion) \<Rightarrow>
               decimal_truediv qty (conversion_factor reverse_conversion)
           | Inr None \<Rightarrow>
               if from_unit = to_unit then Inr qty
               else Inl (InvalidOperationError from_unit to_unit)))"

text \<open>
  A value is in the exponent range when it is zero or its adjusted exponent is above
  \<open>Emin\<close> and below \<open>Emax - 1\<close>, that is, its magnitude is at least \<open>10 powi (Emin + 1)\<close>
  and below \<open>10 powi (Emax - 1)\<close>.
\<close>

definition in_exponent_range :: "decimal \<Rightarrow> bool" where
  "in_exponent_range x = (x = 0 \<or> (Emin < adjusted x \<and> adjusted x < Emax - 1))"

section \<open>Stock ledger\<close>

definition reserve_stock :: "db \<Rightarrow> int \<Rightarrow> int \<Rightarrow> decimal \<Rightarrow> (error + bool) \<times> db" where
  "reserve_stock d pid lid qty =
     (case get_stock_level d pid lid of
        Inl e \<Rightarrow> (Inl e, d)
      | Inr None \<Rightarrow> (Inl (InsufficientStockError StockLevelNotFound), d)
      | Inr (Some stock_level) \<Rightarrow>
          (let available = quantity stock_level - reserved_quantity stock_level in
           if available < qty
           then (Inl (InsufficientStockError (Insufficient qty available)), d)
           else (Inr True,
                 update_stock_level d pid lid
                   (\<lambda>s. s\<lparr>reserved_quantity := reserved_quantity stock_level + qty\<rparr>))))"

definition release_reserved_stock :: "db \<Rightarrow> int \<Rightarrow> int \<Rightarrow> decimal \<Rightarrow> (error + bool) \<times> db" where
  "release_reserved_stock d pid lid qty =
     (case get_stock_level d pid lid of
        Inl e \<Rightarrow> (Inl e, d)
      | Inr None \<Rightarrow> (Inr False, d)
      | Inr (Some stock_level) \<Rightarrow>
          (let new_reserved = max 0 (reserved_quantity stock_level - qty) in
           (Inr True,
            update_stock_level d pid lid (\<lambda>s. s\<lparr>reserved_quantity := new_reserved\<rparr>))))"

definition consume_stock :: "db \<Rightarrow> int \<Rightarrow> int \<Rightarrow> decimal \<Rightarrow> (error + bool) \<times> db" where
  "consume_stock d pid lid qty =
     (case get_stock_level d pid lid of
        Inl e \<Rightarrow> (Inl e, d)
      | Inr None \<Rightarrow> (Inr False, d)
      | Inr (Some stock_level) \<Rightarrow>
          (let available = quantity stock_level - reserved_quantity stock_level in
           if available < qty
           then (Inl (InsufficientStockError (Insufficient qty available)), d)
           else (Inr True,
                 update_stock_level d pid lid
                   (\<lambda>s. s\<lparr>quantity := quantity stock_level - qty,
                           reserved_quantity := max 0 (reserved_quantity stock_level - qty)\<rparr>))))"

section \<open>Transaction state machine\<close>

text \<open>
  \<^verbatim>\<open>db.get(SaleTransaction, transaction_id)\<close>: the row with that primary key.
\<close>

definition get_transaction :: "db \<Rightarrow> int \<Rightarrow> SaleTransaction option" where
  "get_transaction d transaction_id = find (\<lambda>t. tx_id t = transaction_id) (sale_transactions d)"

text \<open>The identifier that the database gives a new row: one that no row of the table has.\<close>

definition new_id :: "int list \<Rightarrow> int" where
  "new_id ids = fold max ids 0 + 1"

text \<open>
  \<^verbatim>\<open>db.add(transaction)\<close> and the commit, for a row read from the table and changed
  since: the row of that primary key is written back.
\<close>

definition save_transaction :: "db \<Rightarrow> SaleTransaction \<Rightarrow> db" where
  "save_transaction d transaction =
     d\<lparr>sale_transactions :=
          map (\<lambda>t. if tx_id t = tx_id transaction then transaction else t) (sale_transactions d)\<rparr>"

text \<open>
  \<^verbatim>\<open>SaleTransactionResponse.from_orm(transaction)\<close>. The schema reads from the row its
  columns and its relationships \<^verbatim>\<open>product\<close>, \<^verbatim>\<open>location\<close> and \<^verbatim>\<open>user\<close>. The
  relationships are lazy, \<^verbatim>\<open>transaction_service.py\<close> loads none of them before the call
  (\<^verbatim>\<open>get_stock_level\<close> in \<^verbatim>\<open>product_service.py\<close> refreshes \<^verbatim>\<open>product\<close> and \<^verbatim>\<open>location\<close>
  of a stock row first), and the \<^verbatim>\<open>AsyncSession\<close> cannot load one on a plain attribute
  read: the read of \<^verbatim>\<open>product\<close> and that of \<^verbatim>\<open>location\<close>, which every row has, fail,
  and the validation raises. No response is built for any row.
\<close>

definition from_orm :: "SaleTransaction \<Rightarrow> error + SaleTransaction" where
  "from_orm transaction = Inl ValidationError"

definition create_sale_transaction ::
    "db \<Rightarrow> SaleTransactionCreate \<Rightarrow> int option \<Rightarrow> (error + SaleTransaction) \<times> db" where
  "create_sale_transaction d transaction_data user_id_arg =
     (case scalar_one_or_none
             (filter (\<lambda>t. event_id t = event_id transaction_data) (sale_transactions d)) of
        Inl e \<Rightarrow> (Inl e, d)
      | Inr (Some existing_transaction) \<Rightarrow> (from_orm existing_transaction, d)
      | Inr None \<Rightarrow>
          if product_id transaction_data \<notin> set (products d)
          then (Inl (ValueError (ProductDoesNotExist (product_id transaction_data))), d)
          else
            (let transaction =
               \<lparr>event_id = event_id transaction_data,
                product_id = product_id transaction_data,
                location_id = location_id transaction_data,
                tx_quantity = tx_quantity transaction_data,
                unit_type = unit_type transaction_data,
                converted_quantity = converted_quantity transaction_data,
                price_per_unit = price_per_unit transaction_data,
                total_amount = total_amount transaction_data,
                terminal_timestamp = terminal_timestamp transaction_data,
                user_id = (case user_id transaction_data of
                             None \<Rightarrow> user_id_arg
                           | Some u \<Rightarrow> if u = 0 then user_id_arg else Some u),
                tx_id = new_id (map tx_id (sale_transactions d)),
                status = PENDING,
                processed_at = None\<rparr>
             in (from_orm transaction,
                 d\<lparr>sale_transactions := sale_transactions d @ [transaction]\<rparr>)))"

definition confirm_transaction ::
    "db \<Rightarrow> int \<Rightarrow> datetime \<Rightarrow> (error + SaleTransaction) \<times> db" where
  "confirm_transaction d transaction_id now =
     (case get_transaction d transaction_id of
        None \<Rightarrow> (Inl (ValueError (TransactionDoesNotExist transaction_id)), d)
      | Some transaction \<Rightarrow>
          if status transaction \<noteq> PENDING
          then (Inl (ValueError (CannotConfirm (status transaction))), d)
          else
            (case consume_stock d (product_id transaction) (location_id transaction)
                    (converted_quantity transaction) of
               (Inl (InsufficientStockError m), d1) \<Rightarrow>
                 (Inl (InsufficientStockError m),
                  save_transaction d1 (transaction\<lparr>status := FAILED, processed_at := Some now\<rparr>))
             | (Inl e, d1) \<Rightarrow> (Inl e, d1)
             | (Inr consumed, d1) \<Rightarrow>
                 (let confirmed = transaction\<lparr>status := CONFIRMED, processed_at := Some now\<rparr>
                  in (from_orm confirmed, save_transaction d1 confirmed))))"

definition cancel_transaction ::
    "db \<Rightarrow> int \<Rightarrow> datetime \<Rightarrow> (error + SaleTransaction) \<times> db" where
  "cancel_transaction d transaction_id now =
     (case get_transaction d transaction_id of
        None \<Rightarrow> (Inl (ValueError (TransactionDoesNotExist transaction_id)), d)
      | Some transaction \<Rightarrow>
          if status transaction \<noteq> PENDING
          then (Inl (ValueError (CannotCancel (status transaction))), d)
          else
            (case release_reserved_stock d (product_id transaction) (location_id transaction)
                    (converted_quantity transaction) of
               (Inl e, d1) \<Rightarrow> (Inl e, d1)
             | (Inr released, d1) \<Rightarrow>
                 (let cancelled = transaction\<lparr>status := CANCELLED, processed_at := Some now\<rparr>
                  in (from_orm cancelled, save_transaction d1 cancelled))))"

section \<open>Reconciliation engine\<close>

text \<open>The body of the \<^verbatim>\<open>try\<close> in the loop of \<^verbatim>\<open>reconcile_transactions\<close>.\<close>

definition reconcile_item :: "datetime \<Rightarrow> db \<Rightarrow> SaleTransactionCreate \<Rightarrow> (error + unit) \<times> db" where
  "reconcile_item now d transaction_data =
     (case create_sale_transaction d transaction_data None of
        (Inl e, d1) \<Rightarrow> (Inl e, d1)
      | (Inr transaction, d1) \<Rightarrow>
          if status transaction = PENDING
          then (case confirm_transaction d1 (tx_id transaction) now of
                  (Inl e, d2) \<Rightarrow> (Inl e, d2)
                | (Inr confirmed, d2) \<Rightarrow> (Inr (), d2))
          else (Inr (), d1))"

text \<open>
  The loop, on the three counters and the database: an item that raises is counted as
  failed and the loop goes on with the next item.
\<close>

fun reconcile_loop ::
    "datetime \<Rightarrow> SaleTransactionCreate list \<Rightarrow> nat \<times> nat \<times> nat \<times> db \<Rightarrow> nat \<times> nat \<times> nat \<times> db" where
  "reconcile_loop now [] acc = acc"
| "reconcile_loop now (transaction_data # rest) (processed, success, failed, d) =
     (case reconcile_item now d transaction_data of
        (Inl e, d1) \<Rightarrow> reconcile_loop now rest (processed + 1, success, failed + 1, d1)
      | (Inr u, d1) \<Rightarrow> reconcile_loop now rest (processed + 1, success + 1, failed, d1))"

text \<open>Python's \<^verbatim>\<open>str\<close> of a count, for the notes of the log.\<close>

fun digits_of :: "nat \<Rightarrow> string" where
  "digits_of n =
     (if n < 10 then [char_of (48 + n)]
      else digits_of (n div 10) @ [char_of (48 + n mod 10)])"

definition reconcile_notes :: "nat \<Rightarrow> nat \<Rightarrow> nat \<Rightarrow> string" where
  "reconcile_notes processed success failed =
     ''Processed '' @ digits_of processed @ '' transactions: '' @ digits_of success
       @ '' succeeded, '' @ digits_of failed @ '' failed''"

definition reconcile_transactions ::
    "db \<Rightarrow> string \<Rightarrow> datetime \<Rightarrow> datetime \<Rightarrow> SaleTransactionCreate list \<Rightarrow> datetime
       \<Rightarrow> ReconciliationResult \<times> db" where
  "reconcile_transactions d terminal_id start_time end_time transactions now =
     (let reconciliation_log =
            \<lparr>log_id = new_id (map log_id (reconciliation_logs d)),
             log_start_time = start_time,
             log_end_time = end_time,
             log_terminal_id = terminal_id,
             log_processed_count = 0,
             log_success_count = 0,
             log_failed_count = 0,
             log_status = ''running'',
             log_notes = None\<rparr>;
          d0 = d\<lparr>reconciliation_logs := reconciliation_logs d @ [reconciliation_log]\<rparr>
      in case reconcile_loop now transactions (0, 0, 0, d0) of
           (processed, success, failed, d1) \<Rightarrow>
             (let finished =
                    reconciliation_log
                      \<lparr>log_processed_count := processed,
                       log_success_count := success,
                       log_failed_count := failed,
                       log_status := ''completed'',
                       log_notes := Some (reconcile_notes processed success failed)\<rparr>
              in (\<lparr>reconciliation_id = log_id finished,
                   processed_count = processed,
                   success_count = success,
                   failed_count = failed,
                   result_status = log_status finished,
                   result_notes = log_notes finished\<rparr>,
                  d1\<lparr>reconciliation_logs :=
                        map (\<lambda>l. if log_id l = log_id finished then finished else l)
                          (reconciliation_logs d1)\<rparr>)))"

section \<open>Sequences of ledger calls and batches\<close>

text \<open>
  A call of one of the three mutating operations of the ledger, with its quantity, and
  the run of a sequence of such calls on one key. A call that raises leaves the caller
  free to go on, so the run continues with the state the call left.
\<close>

datatype ledger_call = Reserve decimal | Release decimal | Consume decimal

fun ledger_step :: "int \<Rightarrow> int \<Rightarrow> db \<Rightarrow> ledger_call \<Rightarrow> (error + bool) \<times> db" where
  "ledger_step pid lid d (Reserve qty) = reserve_stock d pid lid qty"
| "ledger_step pid lid d (Release qty) = release_reserved_stock d pid lid qty"
| "ledger_step pid lid d (Consume qty) = consume_stock d pid lid qty"

fun ledger_run :: "int \<Rightarrow> int \<Rightarrow> db \<Rightarrow> ledger_call list \<Rightarrow> db" where
  "ledger_run pid lid d [] = d"
| "ledger_run pid lid d (c # cs) = ledger_run pid lid (snd (ledger_step pid lid d c)) cs"

text \<open>The quantity of a reserve or a release is not negative; a consume takes any.\<close>

fun hold_nonneg :: "ledger_call \<Rightarrow> bool" where
  "hold_nonneg (Reserve qty) = (0 \<le> qty)"
| "hold_nonneg (Release qty) = (0 \<le> qty)"
| "hold_nonneg (Consume qty) = True"

text \<open>
  The reservation invariant on a key: the key has one row, and in it
  \<open>0 \<le> reserved_quantity \<le> quantity\<close>.
\<close>

definition reservation_invariant :: "db \<Rightarrow> int \<Rightarrow> int \<Rightarrow> bool" where
  "reservation_invariant d pid lid =
     (case get_stock_level d pid lid of
        Inr (Some s) \<Rightarrow> 0 \<le> reserved_quantity s \<and> reserved_quantity s \<le> quantity s
      | _ \<Rightarrow> False)"

text \<open>
  The outcomes of the items of a batch, in the order of the batch, each item run on the
  database that the items before it left.
\<close>

fun batch_outcomes :: "datetime \<Rightarrow> db \<Rightarrow> SaleTransactionCreate list \<Rightarrow> (error + unit) list" where
  "batch_outcomes now d [] = []"
| "batch_outcomes now d (transaction_data # rest) =
     (case reconcile_item now d transaction_data of
        (r, d1) \<Rightarrow> r # batch_outcomes now d1 rest)"

section \<open>Sample data\<close>

text \<open>
  Rows and databases on which the operations are evaluated: a shop with product 1 and
  one stock row for product 1 at location 1, a bare database with product 1 and no stock
  row, a database holding given conversion rows, and the payload of a sale.
\<close>

definition stock_row :: "int \<Rightarrow> int \<Rightarrow> decimal \<Rightarrow> decimal \<Rightarrow> StockLevel" where
  "stock_row pid lid q r =
     \<lparr>sl_product_id = pid, sl_location_id = lid, quantity = q, reserved_quantity = r,
      min_stock_level = 0, max_stock_level = 999999\<rparr>"

definition shop :: "decimal \<Rightarrow> decimal \<Rightarrow> db" where
  "shop q r =
     \<lparr>products = [1], stock_levels = [stock_row 1 1 q r], unit_conversions = [],
      sale_transactions = [], reconciliation_logs = []\<rparr>"

definition bare :: db where
  "bare =
     \<lparr>products = [1], stock_levels = [], unit_conversions = [],
      sale_transactions = [], reconciliation_logs = []\<rparr>"

definition conversion_db :: "UnitConversion list \<Rightarrow> db" where
  "conversion_db rows =
     \<lparr>products = [1], stock_levels = [], unit_conversions = rows,
      sale_transactions = [], reconciliation_logs = []\<rparr>"

definition bottle_to_glass :: "decimal \<Rightarrow> UnitConversion" where
  "bottle_to_glass f =
     \<lparr>uc_product_id = 1, uc_from_unit = ''bottle'', uc_to_unit = ''glass'',
      conversion_factor = f\<rparr>"

definition kg_to_kg :: UnitConversion where
  "kg_to_kg =
     \<lparr>uc_product_id = 1, uc_from_unit = ''kg'', uc_to_unit = ''kg'', conversion_factor = 2\<rparr>"

definition sale :: "string \<Rightarrow> int \<Rightarrow> decimal \<Rightarrow> SaleTransactionCreate" where
  "sale e pid q =
     \<lparr>event_id = e, product_id = pid, location_id = 1, tx_quantity = q, unit_type = ''bottle'',
      converted_quantity = q, price_per_unit = 5, total_amount = 5 * q,
      terminal_timestamp = None, user_id = None\<rparr>"

text \<open>The row that a create of \<open>sale ''e1'' 1 q\<close> inserts into an empty table.\<close>

definition sale_row :: "decimal \<Rightarrow> TransactionStatus \<Rightarrow> datetime option \<Rightarrow> SaleTransaction" where
  "sale_row q st stamp =
     \<lparr>event_id = ''e1'', product_id = 1, location_id = 1, tx_quantity = q, unit_type = ''bottle'',
      converted_quantity = q, price_per_unit = 5, total_amount = 5 * q,
      terminal_timestamp = None, user_id = None, tx_id = 1, status = st, processed_at = stamp\<rparr>"

text \<open>The database after the sale \<open>e1\<close> of \<open>q\<close> units of product 1 has been created in it.\<close>

definition placed :: "db \<Rightarrow> decimal \<Rightarrow> db" where
  "placed d q = snd (create_sale_transaction d (sale ''e1'' 1 q) None)"

definition batch_of_five :: "SaleTransactionCreate list" where
  "batch_of_five =
     [sale ''e1'' 1 2, sale ''e2'' 1 2, sale ''e3'' 99 2, sale ''e4'' 1 2, sale ''e5'' 1 2]"

section \<open>Evaluation and helper lemmas\<close>

lemmas sample_data = stock_row_def shop_def bare_def conversion_db_def bottle_to_glass_def
  kg_to_kg_def sale_def sale_row_def batch_of_five_def

lemmas ledger_defs = get_stock_level_def stock_rows_def stock_key_def update_stock_level_def
  reserve_stock_def release_reserved_stock_def consume_stock_def Let_def

lemmas converter_defs = convert_units_def conversion_rows_def conversion_key_def decimal_div_def

lemmas transaction_defs = create_sale_transaction_def new_id_def get_transaction_def
  save_transaction_def confirm_transaction_def cancel_transaction_def from_orm_def Let_def

subsection \<open>Queries and updates\<close>

lemma scalar_None: "scalar_one_or_none xs = Inr None \<longleftrightarrow> xs = []"
  by (cases xs rule: scalar_one_or_none.cases) auto

lemma scalar_Some: "scalar_one_or_none xs = Inr (Some x) \<longleftrightarrow> xs = [x]"
  by (cases xs rule: scalar_one_or_none.cases) auto


lemma filter_map_update:
  assumes "\<And>s. P s \<Longrightarrow> P (f s)"
  shows "filter P (map (\<lambda>s. if P s then f s else s) xs) = map f (filter P xs)"
  using assms by (induction xs) auto

lemma stock_rows_update:
  assumes "\<And>s. stock_key pid lid s \<Longrightarrow> stock_key pid lid (vals s)"
  shows "stock_rows (update_stock_level d pid lid vals) pid lid = map vals (stock_rows d pid lid)"
  using assms by (simp add: stock_rows_def update_stock_level_def filter_map_update)

lemma get_stock_level_update:
  assumes "get_stock_level d pid lid = Inr (Some s)"
      and "\<And>s. stock_key pid lid s \<Longrightarrow> stock_key pid lid (vals s)"
  shows "get_stock_level (update_stock_level d pid lid vals) pid lid = Inr (Some (vals s))"
  using assms by (simp add: get_stock_level_def stock_rows_update scalar_Some)

lemma find_map_update:
  assumes "find (\<lambda>t. k t = i) xs = Some t" and "k t' = i"
  shows "find (\<lambda>t. k t = i) (map (\<lambda>t. if k t = i then t' else t) xs) = Some t'"
  using assms by (induction xs) (auto split: if_splits)

lemma get_transaction_id: "get_transaction d i = Some t \<Longrightarrow> tx_id t = i"
  by (auto simp: get_transaction_def find_Some_iff)

lemma get_transaction_save:
  assumes "get_transaction d i = Some t" and "tx_id t' = i"
  shows "get_transaction (save_transaction d t') i = Some t'"
  using assms unfolding get_transaction_def save_transaction_def
  by (simp add: find_map_update [where k = tx_id])

lemma stock_levels_save [simp]: "stock_levels (save_transaction d t) = stock_levels d"
  by (simp add: save_transaction_def)

subsection \<open>The ledger operations on a key with one row, and on a key with none\<close>

lemma reserve_stock_row:
  assumes "get_stock_level d pid lid = Inr (Some s)"
      and "\<not> quantity s - reserved_quantity s < qty"
  shows "get_stock_level (snd (reserve_stock d pid lid qty)) pid lid =
           Inr (Some (s\<lparr>reserved_quantity := reserved_quantity s + qty\<rparr>))"
proof -
  have eq: "reserve_stock d pid lid qty =
           (Inr True, update_stock_level d pid lid
              (\<lambda>r. r\<lparr>reserved_quantity := reserved_quantity s + qty\<rparr>))"
    using assms by (simp add: reserve_stock_def)
  show ?thesis
    unfolding eq snd_conv
    by (rule get_stock_level_update [OF assms(1)]) (simp add: stock_key_def)
qed

lemma reserve_stock_short:
  assumes "get_stock_level d pid lid = Inr (Some s)"
      and "quantity s - reserved_quantity s < qty"
  shows "reserve_stock d pid lid qty =
           (Inl (InsufficientStockError (Insufficient qty (quantity s - reserved_quantity s))), d)"
  using assms by (simp add: reserve_stock_def)

lemma release_reserved_stock_row:
  assumes "get_stock_level d pid lid = Inr (Some s)"
  shows "release_reserved_stock d pid lid qty =
           (Inr True, update_stock_level d pid lid
              (\<lambda>r. r\<lparr>reserved_quantity := max 0 (reserved_quantity s - qty)\<rparr>))"
    and "get_stock_level (snd (release_reserved_stock d pid lid qty)) pid lid =
           Inr (Some (s\<lparr>reserved_quantity := max 0 (reserved_quantity s - qty)\<rparr>))"
proof -
  show eq: "release_reserved_stock d pid lid qty =
           (Inr True, update_stock_level d pid lid
              (\<lambda>r. r\<lparr>reserved_quantity := max 0 (reserved_quantity s - qty)\<rparr>))"
    using assms by (simp add: release_reserved_stock_def)
  show "get_stock_level (snd (release_reserved_stock d pid lid qty)) pid lid =
           Inr (Some (s\<lparr>reserved_quantity := max 0 (reserved_quantity s - qty)\<rparr>))"
    unfolding eq snd_conv
    by (rule get_stock_level_update [OF assms(1)]) (simp add: stock_key_def)
qed

lemma release_reserved_stock_other:
  assumes "\<And>s. get_stock_level d pid lid \<noteq> Inr (Some s)"
  shows "snd (release_reserved_stock d pid lid qty) = d"
  using assms by (simp add: release_reserved_stock_def split: sum.splits option.splits)

lemma consume_stock_row:
  assumes "get_stock_level d pid lid = Inr (Some s)"
      and "\<not> quantity s - reserved_quantity s < qty"
  shows "get_stock_level (snd (consume_stock d pid lid qty)) pid lid =
           Inr (Some (s\<lparr>quantity := quantity s - qty,
                         reserved_quantity := max 0 (reserved_quantity s - qty)\<rparr>))"
proof -
  have eq: "consume_stock d pid lid qty =
           (Inr True, update_stock_level d pid lid
              (\<lambda>r. r\<lparr>quantity := quantity s - qty,
                      reserved_quantity := max 0 (reserved_quantity s - qty)\<rparr>))"
    using assms by (simp add: consume_stock_def)
  show ?thesis
    unfolding eq snd_conv
    by (rule get_stock_level_update [OF assms(1)]) (simp add: stock_key_def)
qed

lemma consume_stock_short:
  assumes "get_stock_level d pid lid = Inr (Some s)"
      and "quantity s - reserved_quantity s < qty"
  shows "consume_stock d pid lid qty =
           (Inl (InsufficientStockError (Insufficient qty (quantity s - reserved_quantity s))), d)"
  using assms by (simp add: consume_stock_def)

lemma consume_stock_no_row:
  "stock_rows d pid lid = [] \<Longrightarrow> consume_stock d pid lid qty = (Inr False, d)"
  by (simp add: consume_stock_def get_stock_level_def)

subsection \<open>One call of the ledger keeps the reservation invariant\<close>

lemma ledger_step_invariant:
  assumes "reservation_invariant d pid lid" and "hold_nonneg c"
  shows "reservation_invariant (snd (ledger_step pid lid d c)) pid lid"
proof -
  from assms(1) obtain s where s: "get_stock_level d pid lid = Inr (Some s)"
    and inv: "0 \<le> reserved_quantity s" "reserved_quantity s \<le> quantity s"
    by (auto simp: reservation_invariant_def split: sum.splits option.splits)
  show ?thesis
  proof (cases c)
    case (Reserve qty)
    show ?thesis
    proof (cases "quantity s - reserved_quantity s < qty")
      case True
      then show ?thesis
        using Reserve assms(1) by (simp add: reserve_stock_short [OF s])
    next
      case False
      then show ?thesis
        using Reserve assms(2) inv
        by (simp add: reservation_invariant_def reserve_stock_row [OF s])
    qed
  next
    case (Release qty)
    then show ?thesis
      using assms(2) inv
      by (simp add: reservation_invariant_def release_reserved_stock_row(2) [OF s])
  next
    case (Consume qty)
    show ?thesis
    proof (cases "quantity s - reserved_quantity s < qty")
      case True
      then show ?thesis
        using Consume assms(1) by (simp add: consume_stock_short [OF s])
    next
      case False
      then show ?thesis
        using Consume inv
        by (simp add: reservation_invariant_def consume_stock_row [OF s])
    qed
  qed
qed

lemma ledger_run_invariant:
  "reservation_invariant d pid lid \<Longrightarrow> list_all hold_nonneg calls \<Longrightarrow>
   reservation_invariant (ledger_run pid lid d calls) pid lid"
  by (induction calls arbitrary: d) (auto simp: ledger_step_invariant)

lemma list_all_take: "list_all P xs \<Longrightarrow> list_all P (take n xs)"
  by (auto simp: list_all_iff dest: in_set_takeD)

subsection \<open>The rounding of the decimal context\<close>

lemma powi10_less_iff: "(10::rat) powi m < 10 powi n \<longleftrightarrow> m < n"
proof
  assume "(10::rat) powi m < 10 powi n"
  show "m < n"
  proof (rule ccontr)
    assume "\<not> m < n"
    then have "(10::rat) powi n \<le> 10 powi m"
      by (intro power_int_increasing) simp_all
    with \<open>(10::rat) powi m < 10 powi n\<close> show False by simp
  qed
next
  assume "m < n"
  then show "(10::rat) powi m < 10 powi n"
    by (intro power_int_strict_increasing) simp_all
qed

lemma adjusted_bounds:
  assumes "x \<noteq> 0"
  shows "10 powi adjusted x \<le> \<bar>x\<bar>" and "\<bar>x\<bar> < 10 powi (adjusted x + 1)"
proof -
  obtain p q where pq: "quotient_of \<bar>x\<bar> = (p, q)"
    by (cases "quotient_of \<bar>x\<bar>")
  then have q: "0 < q" and x: "\<bar>x\<bar> = of_int p / of_int q"
    using quotient_of_denom_pos [OF pq] quotient_of_div [OF pq] by simp_all
  from assms have "0 < \<bar>x\<bar>" by simp
  with x q have p: "0 < p"
    by (simp add: zero_less_divide_iff)
  define dp where "dp = floorlog 10 (nat p)"
  define dq where "dq = floorlog 10 (nat q)"
  have bp: "10 ^ (dp - 1) \<le> nat p" "nat p < 10 ^ dp"
    using floorlog_bounds [of "nat p" 10] p by (simp_all add: dp_def)
  have bq: "10 ^ (dq - 1) \<le> nat q" "nat q < 10 ^ dq"
    using floorlog_bounds [of "nat q" 10] q by (simp_all add: dq_def)
  have dp1: "1 \<le> dp" and dq1: "1 \<le> dq"
    using p q by (simp_all add: dp_def dq_def floorlog_def)
  have rp: "(10::rat) ^ (dp - 1) \<le> of_int p" "(of_int p :: rat) < 10 ^ dp"
  proof -
    have "(of_nat (10 ^ (dp - 1)) :: rat) \<le> of_nat (nat p)"
      using bp(1) by (simp only: of_nat_le_iff)
    then show "(10::rat) ^ (dp - 1) \<le> of_int p"
      using p by simp
    have "(of_nat (nat p) :: rat) < of_nat (10 ^ dp)"
      using bp(2) by (simp only: of_nat_less_iff)
    then show "(of_int p :: rat) < 10 ^ dp"
      using p by simp
  qed
  have rq: "(10::rat) ^ (dq - 1) \<le> of_int q" "(of_int q :: rat) < 10 ^ dq"
  proof -
    have "(of_nat (10 ^ (dq - 1)) :: rat) \<le> of_nat (nat q)"
      using bq(1) by (simp only: of_nat_le_iff)
    then show "(10::rat) ^ (dq - 1) \<le> of_int q"
      using q by simp
    have "(of_nat (nat q) :: rat) < of_nat (10 ^ dq)"
      using bq(2) by (simp only: of_nat_less_iff)
    then show "(of_int q :: rat) < 10 ^ dq"
      using q by simp
  qed
  define a where "a = int dp - int dq"
  have qpos: "(0::rat) < of_int q" using q by simp
  have ppos: "(0::rat) < of_int p" using p by simp
  have low: "10 powi (a - 1) < \<bar>x\<bar>"
  proof -
    have "a - 1 = int (dp - 1) - int dq"
      using dp1 by (simp add: a_def)
    then have "(10::rat) powi (a - 1) = 10 ^ (dp - 1) / 10 ^ dq"
      by (simp add: power_int_diff)
    also have "\<dots> < 10 ^ (dp - 1) / of_int q"
      using rq(2) qpos by (intro divide_strict_left_mono) simp_all
    also have "\<dots> \<le> of_int p / of_int q"
      using rp(1) qpos by (intro divide_right_mono) simp_all
    finally show ?thesis by (simp add: x)
  qed
  have high: "\<bar>x\<bar> < 10 powi (a + 1)"
  proof -
    have "a + 1 = int dp - int (dq - 1)"
      using dq1 by (simp add: a_def)
    then have e: "(10::rat) powi (a + 1) = 10 ^ dp / 10 ^ (dq - 1)"
      by (simp add: power_int_diff)
    have "of_int p / of_int q < (10::rat) ^ dp / of_int q"
      using rp(2) qpos by (intro divide_strict_right_mono) simp_all
    also have "\<dots> \<le> 10 ^ dp / 10 ^ (dq - 1)"
      using rq(1) qpos by (intro divide_left_mono) simp_all
    finally show ?thesis by (simp add: x e)
  qed
  have adj: "adjusted x = (if 10 powi a \<le> \<bar>x\<bar> then a else a - 1)"
    by (simp add: adjusted_def pq Let_def a_def dp_def dq_def)
  show "10 powi adjusted x \<le> \<bar>x\<bar>"
    using low by (simp add: adj)
  show "\<bar>x\<bar> < 10 powi (adjusted x + 1)"
    using high by (auto simp add: adj not_le)
qed

lemma adjusted_unique:
  assumes "10 powi e \<le> \<bar>x\<bar>" and "\<bar>x\<bar> < 10 powi (e + 1)"
  shows "adjusted x = e"
proof -
  have "0 < (10::rat) powi e" by simp
  with assms(1) have "0 < \<bar>x\<bar>" by linarith
  then have nz: "x \<noteq> 0" by simp
  note b = adjusted_bounds [OF nz]
  have "(10::rat) powi adjusted x < 10 powi (e + 1)"
    using b(1) assms(2) by simp
  then have 1: "adjusted x < e + 1"
    by (simp add: powi10_less_iff)
  have "(10::rat) powi e < 10 powi (adjusted x + 1)"
    using b(2) assms(1) by simp
  then have 2: "e < adjusted x + 1"
    by (simp add: powi10_less_iff)
  from 1 2 show ?thesis by simp
qed

lemma round_half_even_error: "\<bar>of_int (round_half_even x) - x\<bar> \<le> 1 / 2"
proof -
  have "of_int \<lfloor>x\<rfloor> \<le> x" "x < of_int \<lfloor>x\<rfloor> + 1"
    by linarith+
  then show ?thesis
    by (auto simp: round_half_even_def Let_def abs_le_iff)
qed

lemma round_half_even_nonneg: "0 \<le> x \<Longrightarrow> 0 \<le> round_half_even x"
  by (auto simp: round_half_even_def Let_def)

text \<open>One rounding of a result in the normal range has a relative error of at most \<open>5 / 10 ^ 28\<close>.\<close>

lemma context_round_normal:
  assumes "x \<noteq> 0" and "Emin \<le> adjusted x" and "adjusted x < Emax"
  shows "\<exists>r. context_round x = Inr r \<and> \<bar>r - x\<bar> \<le> \<bar>x\<bar> * (5 / 10 ^ 28)"
proof -
  define e where "e = adjusted x"
  define quantum :: rat where "quantum = 10 powi (e - 27)"
  define c where "c = round_half_even (\<bar>x\<bar> / quantum)"
  have qpos: "0 < quantum" by (simp add: quantum_def)
  have m: "max e Emin = e" using assms(2) by (simp add: e_def)
  have r: "context_round x = Inr (sgn x * of_int c * quantum)"
  proof -
    have "\<not> Emax < adjusted x" "adjusted x \<noteq> Emax" "max (adjusted x) Emin = adjusted x"
      using assms(2,3) by simp_all
    then show ?thesis
      unfolding context_round_def Let_def c_def quantum_def e_def
      using assms(1) by (simp only: if_False simp_thms)
  qed
  have "\<bar>of_int c - \<bar>x\<bar> / quantum\<bar> \<le> 1 / 2"
    unfolding c_def by (rule round_half_even_error)
  then have "\<bar>of_int c - \<bar>x\<bar> / quantum\<bar> * quantum \<le> 1 / 2 * quantum"
    using qpos by (intro mult_right_mono) simp_all
  moreover have "of_int c * quantum - \<bar>x\<bar> = (of_int c - \<bar>x\<bar> / quantum) * quantum"
    using qpos by (simp add: field_simps)
  then have "\<bar>of_int c * quantum - \<bar>x\<bar>\<bar> = \<bar>of_int c - \<bar>x\<bar> / quantum\<bar> * quantum"
    using qpos by (simp only: abs_mult abs_of_pos)
  ultimately have err: "\<bar>of_int c * quantum - \<bar>x\<bar>\<bar> \<le> quantum / 2"
    by simp
  have "quantum = 10 powi e / 10 ^ 27"
    by (simp add: quantum_def power_int_diff)
  also have "\<dots> \<le> \<bar>x\<bar> / 10 ^ 27"
    using adjusted_bounds(1) [OF assms(1)] by (intro divide_right_mono) (simp_all add: e_def)
  finally have ql: "quantum \<le> \<bar>x\<bar> / 10 ^ 27" .
  have "sgn x * \<bar>x\<bar> = x"
    by (rule mult_sgn_abs)
  then have "\<bar>sgn x * of_int c * quantum - x\<bar> = \<bar>sgn x * (of_int c * quantum - \<bar>x\<bar>)\<bar>"
    by (simp add: right_diff_distrib mult.assoc)
  also have "\<dots> = \<bar>of_int c * quantum - \<bar>x\<bar>\<bar>"
    using assms(1) by (simp add: abs_mult abs_sgn_eq)
  finally have "\<bar>sgn x * of_int c * quantum - x\<bar> \<le> \<bar>x\<bar> * (5 / 10 ^ 28)"
    using err ql by simp
  with r show ?thesis by blast
qed

lemma context_round_at:
  assumes "10 powi e \<le> \<bar>x\<bar>" and "\<bar>x\<bar> < 10 powi (e + 1)"
  shows "context_round x =
     (if Emax < e then Inl DecimalOverflow
      else if e = Emax \<and> round_half_even (\<bar>x\<bar> / 10 powi (max e Emin - 27)) = 10 ^ 28
           then Inl DecimalOverflow
      else Inr (sgn x * of_int (round_half_even (\<bar>x\<bar> / 10 powi (max e Emin - 27)))
                  * 10 powi (max e Emin - 27)))"
proof -
  have "0 < (10::rat) powi e" by simp
  with assms(1) have "0 < \<bar>x\<bar>" by linarith
  then have "x \<noteq> 0" by simp
  then show ?thesis
    unfolding context_round_def Let_def adjusted_unique [OF assms]
    by (simp only: if_False)
qed

lemma round_half_even_divide:
  assumes "0 < b"
  shows "round_half_even (of_int a / of_int b) =
     (if 2 * (a mod b) < b then a div b
      else if b < 2 * (a mod b) then a div b + 1
      else if even (a div b) then a div b else a div b + 1)"
proof -
  have fl: "\<lfloor>(of_int a / of_int b :: rat)\<rfloor> = a div b"
    by (simp add: floor_divide_of_int_eq)
  have "(of_int a :: rat) = of_int (a div b) * of_int b + of_int (a mod b)"
    by (simp flip: of_int_mult of_int_add)
  then have d: "(of_int a / of_int b :: rat) - of_int (a div b) = of_int (a mod b) / of_int b"
    using assms by (simp add: field_simps)
  have h1: "(of_int (a mod b) / of_int b < (1 / 2 :: rat)) = (2 * (a mod b) < b)"
  proof -
    have "(of_int (a mod b) / of_int b < (1 / 2 :: rat))
        = ((of_int (2 * (a mod b)) :: rat) < of_int b)"
      using assms by (simp add: divide_less_eq mult.commute)
    then show ?thesis
      by (simp only: of_int_less_iff)
  qed
  have h2: "((1 / 2 :: rat) < of_int (a mod b) / of_int b) = (b < 2 * (a mod b))"
  proof -
    have "((1 / 2 :: rat) < of_int (a mod b) / of_int b)
        = ((of_int b :: rat) < of_int (2 * (a mod b)))"
      using assms by (simp add: less_divide_eq mult.commute)
    then show ?thesis
      by (simp only: of_int_less_iff)
  qed
  show ?thesis
    unfolding round_half_even_def Let_def fl d h1 h2 ..
qed

lemma round_half_even_numeral:
  "round_half_even (numeral a / numeral b) =
     (if 2 * (numeral a mod numeral b) < (numeral b :: int) then numeral a div numeral b
      else if (numeral b :: int) < 2 * (numeral a mod numeral b) then numeral a div numeral b + 1
      else if even (numeral a div numeral b :: int) then numeral a div numeral b
      else numeral a div numeral b + 1)"
  using round_half_even_divide [of "numeral b" "numeral a"] by simp

lemma adjusted_ge: "10 powi k \<le> \<bar>x\<bar> \<Longrightarrow> k \<le> adjusted x"
proof -
  assume a: "10 powi k \<le> \<bar>x\<bar>"
  have "0 < (10::rat) powi k" by simp
  with a have "0 < \<bar>x\<bar>" by linarith
  then have "x \<noteq> 0" by simp
  from adjusted_bounds(2) [OF this] a have "(10::rat) powi k < 10 powi (adjusted x + 1)"
    by simp
  then show ?thesis by (simp add: powi10_less_iff)
qed

lemma adjusted_le: "x \<noteq> 0 \<Longrightarrow> \<bar>x\<bar> < 10 powi (k + 1) \<Longrightarrow> adjusted x \<le> k"
proof -
  assume "x \<noteq> 0" and a: "\<bar>x\<bar> < 10 powi (k + 1)"
  from adjusted_bounds(1) [OF \<open>x \<noteq> 0\<close>] a have "(10::rat) powi adjusted x < 10 powi (k + 1)"
    by simp
  then show ?thesis by (simp add: powi10_less_iff)
qed

lemma context_round_zero: "context_round 0 = Inr 0"
  by (simp add: context_round_def)

lemma round_trip_in_context:
  assumes f: "f \<noteq> 0"
      and rq: "in_exponent_range q"
      and rx: "in_exponent_range (q * f)"
  shows "\<exists>y z. decimal_mul q f = Inr y \<and> decimal_truediv y f = Inr z
           \<and> \<bar>y - q * f\<bar> \<le> \<bar>q * f\<bar> * (5 / 10 ^ 28)
           \<and> \<bar>z - q\<bar> \<le> \<bar>q\<bar> * (11 / 10 ^ 28)"
proof (cases "q = 0")
  case True
  then show ?thesis
    using f by (simp add: decimal_mul_def decimal_truediv_def context_round_zero)
next
  case False
  define u :: rat where "u = 5 / 10 ^ 28"
  have u: "0 < u" "u < 1 / 10 ^ 27" by (simp_all add: u_def)
  from False f have x1: "q * f \<noteq> 0" by simp
  with rx have e1: "Emin \<le> adjusted (q * f)" "adjusted (q * f) < Emax"
    by (simp_all add: in_exponent_range_def)
  from context_round_normal [OF x1 e1] obtain y
    where y: "context_round (q * f) = Inr y" and ey: "\<bar>y - q * f\<bar> \<le> \<bar>q * f\<bar> * u"
    by (auto simp: u_def)
  have fpos: "0 < \<bar>f\<bar>" using f by simp
  have "y / f - q = (y - q * f) / f"
    using f by (simp add: field_simps)
  then have "\<bar>y / f - q\<bar> = \<bar>y - q * f\<bar> / \<bar>f\<bar>"
    by (simp add: abs_divide)
  also have "\<dots> \<le> \<bar>q * f\<bar> * u / \<bar>f\<bar>"
    using ey fpos by (intro divide_right_mono) simp_all
  also have "\<dots> = \<bar>q\<bar> * u"
    using f by (simp add: abs_mult)
  finally have e2: "\<bar>y / f - q\<bar> \<le> \<bar>q\<bar> * u" .
  have qpos: "0 < \<bar>q\<bar>" using False by simp
  have "\<bar>q\<bar> \<le> \<bar>y / f\<bar> + \<bar>q - y / f\<bar>"
    using abs_triangle_ineq [of "y / f" "q - y / f"] by simp
  then have lo: "\<bar>q\<bar> * (1 - u) \<le> \<bar>y / f\<bar>"
    using e2 by (simp add: algebra_simps abs_minus_commute)
  have "\<bar>y / f\<bar> \<le> \<bar>q\<bar> + \<bar>y / f - q\<bar>"
    using abs_triangle_ineq [of q "y / f - q"] by simp
  then have hi: "\<bar>y / f\<bar> \<le> \<bar>q\<bar> * (1 + u)"
    using e2 by (simp add: algebra_simps)
  from False rq have eq: "Emin < adjusted q" "adjusted q < Emax - 1"
    by (simp_all add: in_exponent_range_def)
  note bq = adjusted_bounds [OF False]
  have "10 powi (adjusted q - 1) = 10 powi adjusted q * (1 / 10 :: rat)"
    by (simp add: power_int_diff)
  also have "\<dots> \<le> \<bar>q\<bar> * (1 - u)"
    using bq(1) u by (intro mult_mono) (simp_all add: u_def)
  also note lo
  finally have low2: "10 powi (adjusted q - 1) \<le> \<bar>y / f\<bar>" .
  moreover have "0 < (10::rat) powi (adjusted q - 1)"
    by simp
  ultimately have "0 < \<bar>y / f\<bar>"
    by linarith
  then have x2: "y / f \<noteq> 0"
    by (metis abs_zero less_irrefl)
  have "\<bar>q\<bar> * (1 + u) < 10 powi (adjusted q + 1) * 10"
    using bq(2) u qpos by (intro mult_strict_mono) (simp_all add: u_def)
  also have "\<dots> = 10 powi (adjusted q + 1 + 1)"
    by (simp add: power_int_add)
  finally have high2: "\<bar>y / f\<bar> < 10 powi (adjusted q + 1 + 1)"
    using hi by simp
  have e3: "Emin \<le> adjusted (y / f)" "adjusted (y / f) < Emax"
    using adjusted_ge [OF low2] adjusted_le [OF x2 high2] eq by simp_all
  from context_round_normal [OF x2 e3] obtain z
    where z: "context_round (y / f) = Inr z" and ez: "\<bar>z - y / f\<bar> \<le> \<bar>y / f\<bar> * u"
    by (auto simp: u_def)
  have "\<bar>z - q\<bar> \<le> \<bar>z - y / f\<bar> + \<bar>y / f - q\<bar>"
    by simp
  also have "\<dots> \<le> \<bar>q\<bar> * (1 + u) * u + \<bar>q\<bar> * u"
    using ez e2 hi u(1) by (intro add_mono order_trans [OF ez] mult_right_mono) simp_all
  also have "\<dots> = \<bar>q\<bar> * ((1 + u) * u + u)"
    by (simp add: algebra_simps)
  also have "\<dots> \<le> \<bar>q\<bar> * (11 / 10 ^ 28)"
    by (intro mult_left_mono) (simp_all add: u_def)
  finally have "\<bar>z - q\<bar> \<le> \<bar>q\<bar> * (11 / 10 ^ 28)" .
  with y z ey show ?thesis
    using f by (simp add: decimal_mul_def decimal_truediv_def u_def)
qed

lemma in_exponent_range_at:
  assumes "10 powi e \<le> \<bar>x\<bar>" and "\<bar>x\<bar> < 10 powi (e + 1)" and "Emin < e" and "e < Emax - 1"
  shows "in_exponent_range x"
  using assms(3,4) by (simp add: in_exponent_range_def adjusted_unique [OF assms(1,2)])

text \<open>Two results outside the exponent range: one too large, one subnormal.\<close>

lemma context_round_overflow_sample: "context_round (10 powi Emax * 10) = Inl DecimalOverflow"
proof -
  have eq: "(10::rat) powi Emax * 10 = 10 powi (Emax + 1)"
    by (simp add: power_int_add)
  have "(10::rat) powi (Emax + 1) \<le> \<bar>10 powi (Emax + 1)\<bar>"
    by simp
  moreover have "\<bar>(10::rat) powi (Emax + 1)\<bar> < 10 powi (Emax + 1 + 1)"
    by (simp add: powi10_less_iff)
  ultimately show ?thesis
    unfolding eq by (subst context_round_at [where e = "Emax + 1"]) simp_all
qed

lemma context_round_subnormal:
  assumes "1 \<le> m" and "m < 10"
  shows "context_round (m * 10 powi (Emin - 27))
      = Inr (of_int (round_half_even m) * 10 powi (Emin - 27))"
proof -
  define tiny :: rat where "tiny = 10 powi (Emin - 27)"
  have pos: "0 < tiny" by (simp add: tiny_def)
  have mpos: "0 < m" using assms(1) by simp
  have next_up: "10 powi (Emin - 27 + 1) = 10 * tiny"
    using power_int_add [of "10::rat" "Emin - 27" 1] by (simp add: tiny_def)
  have size: "\<bar>m * tiny\<bar> = m * tiny"
    using pos mpos by simp
  have "1 * tiny \<le> m * tiny"
    using assms(1) pos by (intro mult_right_mono) simp_all
  then have low: "10 powi (Emin - 27) \<le> \<bar>m * tiny\<bar>"
    by (simp only: size) (simp add: tiny_def)
  have "m * tiny < 10 * tiny"
    using assms(2) pos by (intro mult_strict_right_mono) simp_all
  then have high: "\<bar>m * tiny\<bar> < 10 powi (Emin - 27 + 1)"
    by (simp only: size next_up)
  have side: "\<not> Emax < Emin - 27" "Emin - 27 \<noteq> Emax" "max (Emin - 27) Emin - 27 = Emin - 27"
    by (simp_all add: Emax_def Emin_def)
  have ratio: "\<bar>m * tiny\<bar> / tiny = m"
    using pos by (simp add: size)
  have sign: "sgn (m * tiny) = 1"
    using pos mpos by (simp add: sgn_mult)
  have "context_round (m * tiny) = Inr (of_int (round_half_even m) * tiny)"
    unfolding context_round_at [OF low high]
    by (simp only: side tiny_def [symmetric] ratio sign if_False simp_thms mult_1)
  then show ?thesis
    by (simp only: tiny_def)
qed

lemma context_round_subnormal_sample:
  "context_round (3 / 2 * 10 powi (Emin - 27)) = Inr (2 * 10 powi (Emin - 27))"
  "context_round (2 * 10 powi (Emin - 27)) = Inr (2 * 10 powi (Emin - 27))"
proof -
  have half: "round_half_even (3 / 2) = 2" and whole: "round_half_even 2 = 2"
    using round_half_even_divide [of 2 3] round_half_even_divide [of 1 2] by simp_all
  show "context_round (3 / 2 * 10 powi (Emin - 27)) = Inr (2 * 10 powi (Emin - 27))"
    by (subst context_round_subnormal) (simp_all only: half, simp_all)
  show "context_round (2 * 10 powi (Emin - 27)) = Inr (2 * 10 powi (Emin - 27))"
    by (subst context_round_subnormal) (simp_all only: whole, simp_all)
qed

text \<open>
  \<open>convert_units_in_context\<close> takes the branch that \<open>convert_units\<close> takes and rounds what
  that branch computes; the quantity that the identity branch returns is not rounded.
\<close>

lemma convert_units_in_context_exact:
  "convert_units_in_context d pid from_unit to_unit qty =
     (case convert_units d pid from_unit to_unit qty of
        Inl e \<Rightarrow> Inl e
      | Inr v \<Rightarrow>
          if conversion_rows d pid from_unit to_unit = []
               \<and> conversion_rows d pid to_unit from_unit = []
          then Inr v else context_round v)"
  by (auto simp: convert_units_in_context_def convert_units_def decimal_mul_def
        decimal_truediv_def decimal_div_def scalar_None
        split: sum.splits option.splits dest: scalar_Some [THEN iffD1])

subsection \<open>The items of a batch neither read nor write the reconciliation logs\<close>

lemma get_stock_level_logs [simp]:
  "get_stock_level (d\<lparr>reconciliation_logs := L\<rparr>) pid lid = get_stock_level d pid lid"
  by (simp add: get_stock_level_def stock_rows_def)

lemma get_transaction_logs [simp]:
  "get_transaction (d\<lparr>reconciliation_logs := L\<rparr>) i = get_transaction d i"
  by (simp add: get_transaction_def)

lemma update_stock_level_logs [simp]:
  "update_stock_level (d\<lparr>reconciliation_logs := L\<rparr>) pid lid vals =
     (update_stock_level d pid lid vals)\<lparr>reconciliation_logs := L\<rparr>"
  by (simp add: update_stock_level_def)

lemma save_transaction_logs [simp]:
  "save_transaction (d\<lparr>reconciliation_logs := L\<rparr>) t =
     (save_transaction d t)\<lparr>reconciliation_logs := L\<rparr>"
  by (simp add: save_transaction_def)

lemma consume_stock_logs:
  "consume_stock (d\<lparr>reconciliation_logs := L\<rparr>) pid lid qty =
     (fst (consume_stock d pid lid qty),
      (snd (consume_stock d pid lid qty))\<lparr>reconciliation_logs := L\<rparr>)"
  by (simp add: consume_stock_def Let_def split: sum.splits option.splits)

lemma confirm_transaction_logs:
  "confirm_transaction (d\<lparr>reconciliation_logs := L\<rparr>) i now =
     (fst (confirm_transaction d i now),
      (snd (confirm_transaction d i now))\<lparr>reconciliation_logs := L\<rparr>)"
  unfolding confirm_transaction_def consume_stock_logs [where d = d and L = L]
  by (simp add: Let_def split: sum.splits option.splits prod.splits error.splits)

lemma create_sale_transaction_logs:
  "create_sale_transaction (d\<lparr>reconciliation_logs := L\<rparr>) x u =
     (fst (create_sale_transaction d x u),
      (snd (create_sale_transaction d x u))\<lparr>reconciliation_logs := L\<rparr>)"
  by (simp add: create_sale_transaction_def Let_def split: sum.splits option.splits)

lemma reconcile_item_logs:
  "reconcile_item now (d\<lparr>reconciliation_logs := L\<rparr>) x =
     (fst (reconcile_item now d x), (snd (reconcile_item now d x))\<lparr>reconciliation_logs := L\<rparr>)"
  unfolding reconcile_item_def create_sale_transaction_logs [where d = d and L = L]
  by (simp add: confirm_transaction_logs split: sum.splits prod.splits)

lemma batch_outcomes_logs:
  "batch_outcomes now (d\<lparr>reconciliation_logs := L\<rparr>) xs = batch_outcomes now d xs"
  by (induction xs arbitrary: d) (simp_all add: reconcile_item_logs split: prod.splits)

lemma consume_stock_keeps_logs:
  "reconciliation_logs (snd (consume_stock d pid lid qty)) = reconciliation_logs d"
  by (simp add: consume_stock_def update_stock_level_def Let_def split: sum.splits option.splits)

lemma confirm_transaction_keeps_logs:
  "reconciliation_logs (snd (confirm_transaction d i now)) = reconciliation_logs d"
proof (cases "get_transaction d i")
  case None
  then show ?thesis by (simp add: confirm_transaction_def)
next
  case (Some t)
  obtain r d1 where c: "consume_stock d (product_id t) (location_id t) (converted_quantity t) = (r, d1)"
    by (cases "consume_stock d (product_id t) (location_id t) (converted_quantity t)")
  have "reconciliation_logs d1 = reconciliation_logs d"
    using consume_stock_keeps_logs [of d "product_id t" "location_id t" "converted_quantity t"]
    by (simp add: c)
  then show ?thesis
    by (simp add: confirm_transaction_def Some c save_transaction_def Let_def
          split: sum.splits error.splits)
qed

lemma create_sale_transaction_keeps_logs:
  "reconciliation_logs (snd (create_sale_transaction d x u)) = reconciliation_logs d"
  by (simp add: create_sale_transaction_def Let_def split: sum.splits option.splits)

lemma reconcile_item_keeps_logs:
  "reconciliation_logs (snd (reconcile_item now d x)) = reconciliation_logs d"
proof -
  obtain r d1 where c: "create_sale_transaction d x None = (r, d1)"
    by (cases "create_sale_transaction d x None")
  have d1: "reconciliation_logs d1 = reconciliation_logs d"
    using create_sale_transaction_keeps_logs [of d x None] by (simp add: c)
  show ?thesis
  proof (cases r)
    case (Inl e)
    then show ?thesis by (simp add: reconcile_item_def c d1)
  next
    case (Inr t)
    obtain r2 d2 where k: "confirm_transaction d1 (tx_id t) now = (r2, d2)"
      by (cases "confirm_transaction d1 (tx_id t) now")
    have "reconciliation_logs d2 = reconciliation_logs d"
      using confirm_transaction_keeps_logs [of d1 "tx_id t" now] by (simp add: k d1)
    then show ?thesis
      by (simp add: reconcile_item_def c Inr k d1 split: sum.splits)
  qed
qed

subsection \<open>The counters of the loop\<close>

lemma length_batch_outcomes: "length (batch_outcomes now d xs) = length xs"
  by (induction xs arbitrary: d) (simp_all split: prod.splits)

lemma reconcile_loop_counts:
  "\<exists>d'. reconcile_loop now xs (p, s, f, d) =
     (p + length xs,
      s + length (filter (Not \<circ> isl) (batch_outcomes now d xs)),
      f + length (filter isl (batch_outcomes now d xs)), d')
    \<and> reconciliation_logs d' = reconciliation_logs d"
proof (induction xs arbitrary: p s f d)
  case Nil
  then show ?case by simp
next
  case (Cons x xs)
  obtain r d1 where step: "reconcile_item now d x = (r, d1)"
    by (cases "reconcile_item now d x")
  have logs: "reconciliation_logs d1 = reconciliation_logs d"
    using reconcile_item_keeps_logs [of now d x] by (simp add: step)
  show ?case
  proof (cases r)
    case (Inl e)
    from Cons.IH [of "p + 1" s "f + 1" d1] show ?thesis
      by (auto simp: step Inl logs)
  next
    case (Inr u)
    from Cons.IH [of "p + 1" "s + 1" f d1] show ?thesis
      by (auto simp: step Inr logs)
  qed
qed

subsection \<open>No create returns a response\<close>

lemma create_sale_transaction_raises: "isl (fst (create_sale_transaction d x u))"
  by (simp add: create_sale_transaction_def from_orm_def Let_def
        split: sum.splits option.splits)

lemma reconcile_item_raises: "isl (fst (reconcile_item now d x))"
proof -
  obtain r d1 where c: "create_sale_transaction d x None = (r, d1)"
    by (cases "create_sale_transaction d x None")
  with create_sale_transaction_raises [of d x None] obtain e where "r = Inl e"
    by (cases r) simp_all
  with c show ?thesis
    by (simp add: reconcile_item_def)
qed

lemma digits_of_sample:
  "digits_of 0 = ''0''" "digits_of (Suc (Suc (Suc (Suc (Suc 0))))) = ''5''"
  by code_simp+

lemma batch_outcomes_raise: "filter isl (batch_outcomes now d xs) = batch_outcomes now d xs"
proof (induction xs arbitrary: d)
  case Nil
  then show ?case by simp
next
  case (Cons x xs)
  obtain r d1 where step: "reconcile_item now d x = (r, d1)"
    by (cases "reconcile_item now d x")
  with reconcile_item_raises [of now d x] have "isl r"
    by simp
  with Cons.IH [of d1] show ?case
    by (simp add: step)
qed

subsection \<open>The sample sale\<close>

lemma placed_shop:
  "placed (shop q r) n = (shop q r)\<lparr>sale_transactions := [sale_row n PENDING None]\<rparr>"
  by (simp add: placed_def sample_data transaction_defs)

lemma placed_bare:
  "placed bare n = bare\<lparr>sale_transactions := [sale_row n PENDING None]\<rparr>"
  by (simp add: placed_def sample_data transaction_defs)

lemma confirm_placed_shop:
  "confirm_transaction (placed (shop 10 0) 4) 1 7 =
     (Inl ValidationError,
      (shop 6 0)\<lparr>sale_transactions := [sale_row 4 CONFIRMED (Some 7)]\<rparr>)"
  by (simp add: placed_shop) (simp add: sample_data ledger_defs transaction_defs)

section \<open>Properties of the stock ledger: the reservation invariant\<close>

text \<open>
  Claim C1, as amended. On a key whose one row satisfies
  \<open>0 \<le> reserved_quantity \<le> quantity\<close>, run any sequence of \<^verbatim>\<open>reserve_stock\<close>,
  \<^verbatim>\<open>release_reserved_stock\<close> and \<^verbatim>\<open>consume_stock\<close> calls in which no reserve and no
  release asks for a negative quantity. After every call of the sequence, whether it
  returned or raised \<^verbatim>\<open>InsufficientStockError\<close>, the key still has one row and
  \<open>0 \<le> reserved_quantity \<le> quantity\<close> holds in it. The state after the first \<open>n\<close>
  calls is the run of \<open>take n calls\<close>.
\<close>

theorem reservation_invariant_preserved:
  assumes "reservation_invariant d pid lid"
      and "list_all hold_nonneg calls"
      and "n \<le> length calls"
  shows "reservation_invariant (ledger_run pid lid d (take n calls)) pid lid"
  using assms(1,2) by (intro ledger_run_invariant list_all_take)

text \<open>
  Five calls on a row with 10 on hand and nothing reserved, the fourth of which raises:
  the row ends with 8 on hand and 2 reserved.
\<close>

theorem reservation_invariant_preserved_witness:
  "reservation_invariant (shop 10 0) 1 1
   \<and> list_all hold_nonneg [Reserve 3, Consume 4, Release 5, Reserve 100, Consume (- 2)]
   \<and> reservation_invariant
        (ledger_run 1 1 (shop 10 0)
           (take 5 [Reserve 3, Consume 4, Release 5, Reserve 100, Consume (- 2)])) 1 1
   \<and> stock_levels
        (ledger_run 1 1 (shop 10 0)
           (take 5 [Reserve 3, Consume 4, Release 5, Reserve 100, Consume (- 2)]))
      = [stock_row 1 1 8 2]"
proof -
  have start: "reservation_invariant (shop 10 0) 1 1"
    by (simp add: reservation_invariant_def sample_data ledger_defs)
  have calls: "list_all hold_nonneg [Reserve 3, Consume 4, Release 5, Reserve 100, Consume (- 2)]"
    by simp
  have "stock_levels
        (ledger_run 1 1 (shop 10 0)
           (take 5 [Reserve 3, Consume 4, Release 5, Reserve 100, Consume (- 2)]))
      = [stock_row 1 1 8 2]"
    by (simp add: sample_data ledger_defs)
  with start calls reservation_invariant_preserved [OF start calls, of 5] show ?thesis
    by simp
qed

text \<open>
  Without the restriction on the sign the invariant is lost: a release of \<open>- 20\<close> on a row
  with 10 on hand and nothing reserved returns \<^verbatim>\<open>True\<close> and leaves 20 reserved.
\<close>

theorem reservation_invariant_counterexample:
  "reservation_invariant (shop 10 0) 1 1
   \<and> fst (release_reserved_stock (shop 10 0) 1 1 (- 20)) = Inr True
   \<and> stock_levels (snd (release_reserved_stock (shop 10 0) 1 1 (- 20))) = [stock_row 1 1 10 20]
   \<and> \<not> reservation_invariant (snd (release_reserved_stock (shop 10 0) 1 1 (- 20))) 1 1"
  by (simp add: reservation_invariant_def sample_data ledger_defs)

section \<open>Properties of the transaction state machine\<close>

text \<open>
  Claim C2. Once the status of a transaction is confirmed, cancelled or failed, a further
  \<^verbatim>\<open>confirm_transaction\<close> or \<^verbatim>\<open>cancel_transaction\<close> on it raises the \<^verbatim>\<open>ValueError\<close> of an
  invalid transition and leaves the whole database as it was, hence the status of the
  transaction and the on-hand quantity of every stock row.
\<close>

theorem terminal_status_absorbing:
  assumes "get_transaction d transaction_id = Some t"
      and "status t \<in> {CONFIRMED, CANCELLED, FAILED}"
  shows "confirm_transaction d transaction_id now = (Inl (ValueError (CannotConfirm (status t))), d)
       \<and> cancel_transaction d transaction_id now = (Inl (ValueError (CannotCancel (status t))), d)"
  using assms by (auto simp: confirm_transaction_def cancel_transaction_def)

text \<open>
  With 10 on hand, the confirm of a sale of 4 leaves 6 on hand and the status confirmed in
  the database (and raises when it builds its response); a second confirm, and a cancel,
  fail on the status and leave the database that the first confirm left.
\<close>

theorem terminal_status_absorbing_witness:
  "fst (confirm_transaction (placed (shop 10 0) 4) 1 7) = Inl ValidationError
   \<and> stock_levels (snd (confirm_transaction (placed (shop 10 0) 4) 1 7)) = [stock_row 1 1 6 0]
   \<and> get_transaction (snd (confirm_transaction (placed (shop 10 0) 4) 1 7)) 1
        = Some (sale_row 4 CONFIRMED (Some 7))
   \<and> status (sale_row 4 CONFIRMED (Some 7)) \<in> {CONFIRMED, CANCELLED, FAILED}
   \<and> confirm_transaction (snd (confirm_transaction (placed (shop 10 0) 4) 1 7)) 1 8
        = (Inl (ValueError (CannotConfirm CONFIRMED)),
           snd (confirm_transaction (placed (shop 10 0) 4) 1 7))
   \<and> cancel_transaction (snd (confirm_transaction (placed (shop 10 0) 4) 1 7)) 1 8
        = (Inl (ValueError (CannotCancel CONFIRMED)),
           snd (confirm_transaction (placed (shop 10 0) 4) 1 7))"
proof -
  have found: "get_transaction (snd (confirm_transaction (placed (shop 10 0) 4) 1 7)) 1
        = Some (sale_row 4 CONFIRMED (Some 7))"
    by (simp add: confirm_placed_shop) (simp add: get_transaction_def sample_data)
  have final: "status (sale_row 4 CONFIRMED (Some 7)) \<in> {CONFIRMED, CANCELLED, FAILED}"
    by (simp add: sale_row_def)
  have st: "status (sale_row 4 CONFIRMED (Some 7)) = CONFIRMED"
    by (simp add: sale_row_def)
  have stock: "stock_levels (snd (confirm_transaction (placed (shop 10 0) 4) 1 7))
        = [stock_row 1 1 6 0]"
    by (simp add: confirm_placed_shop) (simp add: sample_data)
  from terminal_status_absorbing [OF found final, of 8] found final stock show ?thesis
    by (simp add: st confirm_placed_shop)
qed

text \<open>
  Claim C3. The confirm of a pending transaction whose \<open>converted_quantity\<close> exceeds the
  available stock \<open>quantity - reserved_quantity\<close> of its key raises
  \<^verbatim>\<open>InsufficientStockError\<close>, and in the database it leaves, the transaction is failed and
  stamped with the time of the call; the stock rows are as they were.
\<close>

theorem confirm_insufficient_marks_failed:
  assumes "get_transaction d transaction_id = Some t"
      and "status t = PENDING"
      and "get_stock_level d (product_id t) (location_id t) = Inr (Some s)"
      and "quantity s - reserved_quantity s < converted_quantity t"
  shows "fst (confirm_transaction d transaction_id now) =
           Inl (InsufficientStockError
                  (Insufficient (converted_quantity t) (quantity s - reserved_quantity s)))
       \<and> get_transaction (snd (confirm_transaction d transaction_id now)) transaction_id =
           Some (t\<lparr>status := FAILED, processed_at := Some now\<rparr>)
       \<and> stock_levels (snd (confirm_transaction d transaction_id now)) = stock_levels d"
proof -
  have c: "confirm_transaction d transaction_id now =
      (Inl (InsufficientStockError
              (Insufficient (converted_quantity t) (quantity s - reserved_quantity s))),
       save_transaction d (t\<lparr>status := FAILED, processed_at := Some now\<rparr>))"
    using assms(1,2) by (simp add: confirm_transaction_def consume_stock_short [OF assms(3,4)])
  have "tx_id (t\<lparr>status := FAILED, processed_at := Some now\<rparr>) = transaction_id"
    using get_transaction_id [OF assms(1)] by simp
  from get_transaction_save [OF assms(1) this] show ?thesis
    by (simp add: c)
qed

text \<open>A sale of 4 with 10 on hand, 8 of them reserved: 2 are available.\<close>

theorem confirm_insufficient_marks_failed_witness:
  "get_transaction (placed (shop 10 8) 4) 1 = Some (sale_row 4 PENDING None)
   \<and> get_stock_level (placed (shop 10 8) 4) 1 1 = Inr (Some (stock_row 1 1 10 8))
   \<and> fst (confirm_transaction (placed (shop 10 8) 4) 1 7)
        = Inl (InsufficientStockError (Insufficient 4 2))
   \<and> get_transaction (snd (confirm_transaction (placed (shop 10 8) 4) 1 7)) 1
        = Some (sale_row 4 FAILED (Some 7))
   \<and> stock_levels (snd (confirm_transaction (placed (shop 10 8) 4) 1 7)) = [stock_row 1 1 10 8]"
proof -
  have found: "get_transaction (placed (shop 10 8) 4) 1 = Some (sale_row 4 PENDING None)"
    by (simp add: placed_shop) (simp add: get_transaction_def sample_data)
  have pending: "status (sale_row 4 PENDING None) = PENDING"
    by (simp add: sale_row_def)
  have row: "get_stock_level (placed (shop 10 8) 4) (product_id (sale_row 4 PENDING None))
        (location_id (sale_row 4 PENDING None)) = Inr (Some (stock_row 1 1 10 8))"
    by (simp add: placed_shop) (simp add: sample_data ledger_defs)
  have short: "quantity (stock_row 1 1 10 8) - reserved_quantity (stock_row 1 1 10 8)
        < converted_quantity (sale_row 4 PENDING None)"
    by (simp add: sample_data)
  have stock: "stock_levels (placed (shop 10 8) 4) = [stock_row 1 1 10 8]"
    by (simp add: placed_shop) (simp add: sample_data)
  from confirm_insufficient_marks_failed [OF found pending row short, of 7] found row stock
  show ?thesis
    by (simp add: sample_data)
qed

text \<open>
  Claim C4. The claim is that two creates with the same \<open>event_id\<close> return the same
  transaction id, the second returning the stored record unchanged, with no new row and
  no stock row touched. The code stores as the claim says and returns no id at all. The
  sale \<open>e1\<close> of 4 units of product 1, created in the shop: the first create stores the
  pending row with id 1 and raises \<^verbatim>\<open>ValidationError\<close> when it builds its response; the
  second create finds that row, changes nothing in the database, and raises
  \<^verbatim>\<open>ValidationError\<close> in the same way.
\<close>

theorem create_sale_transaction_no_response:
  "fst (create_sale_transaction (shop 10 0) (sale ''e1'' 1 4) None) = Inl ValidationError
   \<and> sale_transactions (snd (create_sale_transaction (shop 10 0) (sale ''e1'' 1 4) None))
        = [sale_row 4 PENDING None]
   \<and> stock_levels (snd (create_sale_transaction (shop 10 0) (sale ''e1'' 1 4) None))
        = [stock_row 1 1 10 0]
   \<and> create_sale_transaction
         (snd (create_sale_transaction (shop 10 0) (sale ''e1'' 1 4) None))
         (sale ''e1'' 1 4) None
        = (Inl ValidationError,
           snd (create_sale_transaction (shop 10 0) (sale ''e1'' 1 4) None))"
proof -
  have first: "create_sale_transaction (shop 10 0) (sale ''e1'' 1 4) None =
      (Inl ValidationError, (shop 10 0)\<lparr>sale_transactions := [sale_row 4 PENDING None]\<rparr>)"
    by (simp add: sample_data transaction_defs)
  have second: "create_sale_transaction
      ((shop 10 0)\<lparr>sale_transactions := [sale_row 4 PENDING None]\<rparr>) (sale ''e1'' 1 4) None =
      (Inl ValidationError, (shop 10 0)\<lparr>sale_transactions := [sale_row 4 PENDING None]\<rparr>)"
    by (simp add: sample_data transaction_defs)
  show ?thesis
    by (simp add: first second) (simp add: sample_data)
qed

text \<open>
  Claim C10. The claim is that, when the key of a pending transaction has no stock row,
  \<^verbatim>\<open>consume_stock\<close> returns \<^verbatim>\<open>False\<close> without raising and \<^verbatim>\<open>confirm_transaction\<close> raises
  no error, marks the transaction confirmed, stamps it and touches no stock row. The
  code does all of it but the second: the sale \<open>e1\<close> of 4 units, pending in a database
  without stock rows, is stored confirmed and stamped, no stock row appears, and the
  confirm then raises \<^verbatim>\<open>ValidationError\<close> when it builds its response.
\<close>

theorem confirm_without_stock_row_raises:
  "get_transaction (placed bare 4) 1 = Some (sale_row 4 PENDING None)
   \<and> stock_rows (placed bare 4) 1 1 = []
   \<and> consume_stock (placed bare 4) 1 1 4 = (Inr False, placed bare 4)
   \<and> fst (confirm_transaction (placed bare 4) 1 7) = Inl ValidationError
   \<and> get_transaction (snd (confirm_transaction (placed bare 4) 1 7)) 1
        = Some (sale_row 4 CONFIRMED (Some 7))
   \<and> stock_levels (snd (confirm_transaction (placed bare 4) 1 7)) = []"
proof -
  have confirm: "confirm_transaction (bare\<lparr>sale_transactions := [sale_row 4 PENDING None]\<rparr>) 1 7
      = (Inl ValidationError, bare\<lparr>sale_transactions := [sale_row 4 CONFIRMED (Some 7)]\<rparr>)"
    by (simp add: sample_data ledger_defs transaction_defs)
  show ?thesis
    by (simp add: placed_bare confirm) (simp add: sample_data ledger_defs get_transaction_def)
qed

section \<open>Properties of the reconciliation engine\<close>

text \<open>
  The counters of a run, for every batch: processed is the number of items, failed the
  number of items that raised, success the number of the others, and the result and the
  log stored last carry the status completed. The items are run one after the other in
  the order of the batch, each on the database that the items before it left.
\<close>

lemma reconcile_transactions_tally:
  "processed_count (fst (reconcile_transactions d terminal_id start_time end_time transactions now))
     = length transactions
   \<and> failed_count (fst (reconcile_transactions d terminal_id start_time end_time transactions now))
     = length (filter isl (batch_outcomes now d transactions))
   \<and> success_count (fst (reconcile_transactions d terminal_id start_time end_time transactions now))
     = length (filter (Not \<circ> isl) (batch_outcomes now d transactions))
   \<and> result_status (fst (reconcile_transactions d terminal_id start_time end_time transactions now))
     = ''completed''
   \<and> last (reconciliation_logs
        (snd (reconcile_transactions d terminal_id start_time end_time transactions now)))
     = \<lparr>log_id = reconciliation_id
           (fst (reconcile_transactions d terminal_id start_time end_time transactions now)),
        log_start_time = start_time, log_end_time = end_time, log_terminal_id = terminal_id,
        log_processed_count = length transactions,
        log_success_count = length (filter (Not \<circ> isl) (batch_outcomes now d transactions)),
        log_failed_count = length (filter isl (batch_outcomes now d transactions)),
        log_status = ''completed'',
        log_notes = result_notes
           (fst (reconcile_transactions d terminal_id start_time end_time transactions now))\<rparr>"
proof -
  let ?log = "\<lparr>log_id = new_id (map log_id (reconciliation_logs d)),
             log_start_time = start_time, log_end_time = end_time,
             log_terminal_id = terminal_id, log_processed_count = 0,
             log_success_count = 0, log_failed_count = 0,
             log_status = ''running'', log_notes = None\<rparr>"
  let ?d0 = "d\<lparr>reconciliation_logs := reconciliation_logs d @ [?log]\<rparr>"
  obtain d1 where loop: "reconcile_loop now transactions (0, 0, 0, ?d0) =
      (length transactions,
       length (filter (Not \<circ> isl) (batch_outcomes now d transactions)),
       length (filter isl (batch_outcomes now d transactions)), d1)"
    and logs: "reconciliation_logs d1 = reconciliation_logs d @ [?log]"
    using reconcile_loop_counts [of now transactions 0 0 0 ?d0]
    by (auto simp: batch_outcomes_logs)
  show ?thesis
    unfolding reconcile_transactions_def Let_def loop
    by (simp add: logs)
qed

text \<open>
  Every item raises, in the create at the latest, so no item is confirmed and every item
  is counted as failed.
\<close>

lemma reconcile_transactions_none_succeeds:
  "success_count (fst (reconcile_transactions d terminal_id start_time end_time transactions now))
     = 0
   \<and> failed_count (fst (reconcile_transactions d terminal_id start_time end_time transactions now))
     = length transactions"
proof -
  have "\<forall>r \<in> set (batch_outcomes now d transactions). isl r"
    using batch_outcomes_raise [of now d transactions] by (simp add: filter_id_conv)
  then have "filter (Not \<circ> isl) (batch_outcomes now d transactions) = []"
    by (simp add: filter_empty_conv)
  with reconcile_transactions_tally [of d terminal_id start_time end_time transactions now]
  show ?thesis
    by (simp add: batch_outcomes_raise length_batch_outcomes)
qed

text \<open>
  Claim C5. The claim is that the batch is processed in order, every item counted as
  processed, an item that raises counted as failed, the others as success, and the log
  always finalized to completed, so that a batch of five whose third item names a product
  that does not exist gives processed 5, failed 1, success 4. The code counts and
  finalizes as the claim says, and on that batch it gives processed 5, success 0, failed 5:
  the third item raises \<^verbatim>\<open>ValueError\<close> for the product, and each of the four others
  stores its pending sale and raises \<^verbatim>\<open>ValidationError\<close> when the create builds its
  response. No sale is confirmed and the 10 units on hand stay.
\<close>

theorem reconcile_transactions_all_failed:
  "batch_outcomes 7 (shop 10 0) batch_of_five
      = [Inl ValidationError, Inl ValidationError, Inl (ValueError (ProductDoesNotExist 99)),
         Inl ValidationError, Inl ValidationError]
   \<and> fst (reconcile_transactions (shop 10 0) ''t1'' 0 9 batch_of_five 7)
      = \<lparr>reconciliation_id = 1, processed_count = 5, success_count = 0, failed_count = 5,
         result_status = ''completed'',
         result_notes = Some ''Processed 5 transactions: 0 succeeded, 5 failed''\<rparr>
   \<and> map (\<lambda>t. (tx_id t, event_id t, status t))
        (sale_transactions (snd (reconcile_transactions (shop 10 0) ''t1'' 0 9 batch_of_five 7)))
      = [(1, ''e1'', PENDING), (2, ''e2'', PENDING), (3, ''e4'', PENDING), (4, ''e5'', PENDING)]
   \<and> stock_levels (snd (reconcile_transactions (shop 10 0) ''t1'' 0 9 batch_of_five 7))
      = [stock_row 1 1 10 0]
   \<and> map (\<lambda>l. (log_status l, log_processed_count l, log_success_count l, log_failed_count l))
        (reconciliation_logs
           (snd (reconcile_transactions (shop 10 0) ''t1'' 0 9 batch_of_five 7)))
      = [(''completed'', 5, 0, 5)]"
  by (simp add: sample_data ledger_defs transaction_defs reconcile_item_def
        reconcile_transactions_def reconcile_notes_def digits_of_sample
      del: digits_of.simps)

section \<open>Properties of the unit converter\<close>

text \<open>
  Claim C6, as amended. When \<open>from_unit\<close> and \<open>to_unit\<close> are the same unit and the product
  has no conversion row from that unit to itself, \<^verbatim>\<open>convert_units\<close> returns the quantity
  unchanged, whatever other rows are stored.
\<close>

theorem convert_units_same_unit:
  assumes "conversion_rows d pid u u = []"
  shows "convert_units d pid u u qty = Inr qty"
  using assms by (simp add: convert_units_def)

theorem convert_units_same_unit_witness:
  "conversion_rows (conversion_db [bottle_to_glass 6]) 1 ''glass'' ''glass'' = []
   \<and> convert_units (conversion_db [bottle_to_glass 6]) 1 ''glass'' ''glass'' 3 = Inr 3"
proof -
  have none: "conversion_rows (conversion_db [bottle_to_glass 6]) 1 ''glass'' ''glass'' = []"
    by (simp add: sample_data conversion_rows_def conversion_key_def)
  from convert_units_same_unit [OF none, of 3] none show ?thesis
    by simp
qed

text \<open>
  The lookup of a stored row comes first: with a row from kg to kg of factor 2, the
  conversion of 3 kg to kg returns 6.
\<close>

theorem convert_units_same_unit_counterexample:
  "convert_units (conversion_db [kg_to_kg]) 1 ''kg'' ''kg'' 3 = Inr 6
   \<and> convert_units (conversion_db [kg_to_kg]) 1 ''kg'' ''kg'' 3 \<noteq> Inr 3"
  by (simp add: sample_data converter_defs)




text \<open>
  Claim C9, as amended. The product has one conversion row from unit A to unit B, of
  factor \<open>f \<noteq> 0\<close>, and no row from B to A; the quantity \<open>q\<close> and the product \<open>q * f\<close> are in
  the exponent range of the decimal context. Then the conversion of \<open>q\<close> from A to B
  returns a \<open>y\<close> that differs from \<open>q * f\<close> by at most \<open>5 / 10 ^ 28\<close> of its magnitude, and
  the conversion of \<open>y\<close> from B to A returns a \<open>z\<close> that differs from \<open>q\<close> by at most
  \<open>11 / 10 ^ 28\<close> of the magnitude of \<open>q\<close>: the round trip returns \<open>q\<close> within the rounding
  of two operations of 28 digits.
\<close>

theorem convert_units_round_trip_tolerance:
  assumes "conversion_rows d pid unit_a unit_b = [c]"
      and "conversion_factor c \<noteq> 0"
      and "conversion_rows d pid unit_b unit_a = []"
      and "in_exponent_range qty"
      and "in_exponent_range (qty * conversion_factor c)"
  shows "\<exists>y z. convert_units_in_context d pid unit_a unit_b qty = Inr y
           \<and> convert_units_in_context d pid unit_b unit_a y = Inr z
           \<and> \<bar>y - qty * conversion_factor c\<bar> \<le> \<bar>qty * conversion_factor c\<bar> * (5 / 10 ^ 28)
           \<and> \<bar>z - qty\<bar> \<le> \<bar>qty\<bar> * (11 / 10 ^ 28)"
proof -
  have there: "convert_units_in_context d pid unit_a unit_b qty
      = decimal_mul qty (conversion_factor c)"
    by (simp add: convert_units_in_context_def assms(1))
  have backward: "convert_units_in_context d pid unit_b unit_a y
      = decimal_truediv y (conversion_factor c)" for y
    by (simp add: convert_units_in_context_def assms(1,3))
  from round_trip_in_context [OF assms(2,4,5)] show ?thesis
    by (simp add: there backward)
qed

text \<open>
  A bottle is 6 glasses. 9.999999999999999999999999999 bottles are
  59.99999999999999999999999999 glasses, the product rounded to 28 digits, and these are
  9.999999999999999999999999998 bottles: the round trip is off by one unit of the last
  digit, inside the tolerance.
\<close>

theorem convert_units_round_trip_tolerance_witness:
  "conversion_rows (conversion_db [bottle_to_glass 6]) 1 ''bottle'' ''glass'' = [bottle_to_glass 6]
   \<and> conversion_factor (bottle_to_glass 6) \<noteq> 0
   \<and> conversion_rows (conversion_db [bottle_to_glass 6]) 1 ''glass'' ''bottle'' = []
   \<and> in_exponent_range (9999999999999999999999999999 / 10 ^ 27)
   \<and> in_exponent_range
        (9999999999999999999999999999 / 10 ^ 27 * conversion_factor (bottle_to_glass 6))
   \<and> convert_units_in_context (conversion_db [bottle_to_glass 6]) 1 ''bottle'' ''glass''
        (9999999999999999999999999999 / 10 ^ 27)
        = Inr (5999999999999999999999999999 / 10 ^ 26)
   \<and> convert_units_in_context (conversion_db [bottle_to_glass 6]) 1 ''glass'' ''bottle''
        (5999999999999999999999999999 / 10 ^ 26)
        = Inr (9999999999999999999999999998 / 10 ^ 27)
   \<and> \<bar>9999999999999999999999999998 / 10 ^ 27 - 9999999999999999999999999999 / 10 ^ 27\<bar>
        \<le> \<bar>9999999999999999999999999999 / 10 ^ 27 :: rat\<bar> * (11 / 10 ^ 28)"
proof -
  have direct: "conversion_rows (conversion_db [bottle_to_glass 6]) 1 ''bottle'' ''glass''
        = [bottle_to_glass 6]"
    by (simp add: sample_data conversion_rows_def conversion_key_def)
  have factor: "conversion_factor (bottle_to_glass 6) \<noteq> 0"
    by (simp add: bottle_to_glass_def)
  have reverse: "conversion_rows (conversion_db [bottle_to_glass 6]) 1 ''glass'' ''bottle'' = []"
    by (simp add: sample_data conversion_rows_def conversion_key_def)
  have q: "in_exponent_range (9999999999999999999999999999 / 10 ^ 27)"
    by (rule in_exponent_range_at [where e = 0]) (simp_all add: Emin_def Emax_def)
  have qf: "in_exponent_range
        (9999999999999999999999999999 / 10 ^ 27 * conversion_factor (bottle_to_glass 6))"
    by (rule in_exponent_range_at [where e = 1])
      (simp_all add: Emin_def Emax_def bottle_to_glass_def)
  have there: "convert_units_in_context (conversion_db [bottle_to_glass 6]) 1 ''bottle'' ''glass''
        (9999999999999999999999999999 / 10 ^ 27)
        = Inr (5999999999999999999999999999 / 10 ^ 26)"
    unfolding convert_units_in_context_def direct
    by (simp add: decimal_mul_def bottle_to_glass_def)
      ((subst context_round_at [where e = 1]),
        simp_all add: Emax_def Emin_def round_half_even_numeral)
  have backward: "convert_units_in_context (conversion_db [bottle_to_glass 6]) 1 ''glass'' ''bottle''
        (5999999999999999999999999999 / 10 ^ 26)
        = Inr (9999999999999999999999999998 / 10 ^ 27)"
    unfolding convert_units_in_context_def direct reverse
    by (simp add: decimal_truediv_def bottle_to_glass_def)
      ((subst context_round_at [where e = 0]),
        simp_all add: Emax_def Emin_def round_half_even_numeral)
  from convert_units_round_trip_tolerance [OF direct factor reverse q qf]
  obtain y z where
    "convert_units_in_context (conversion_db [bottle_to_glass 6]) 1 ''bottle'' ''glass''
        (9999999999999999999999999999 / 10 ^ 27) = Inr y"
    "convert_units_in_context (conversion_db [bottle_to_glass 6]) 1 ''glass'' ''bottle'' y = Inr z"
    "\<bar>z - 9999999999999999999999999999 / 10 ^ 27\<bar>
        \<le> \<bar>9999999999999999999999999999 / 10 ^ 27\<bar> * (11 / 10 ^ 28)"
    by blast
  with there backward have "\<bar>9999999999999999999999999998 / 10 ^ 27
        - 9999999999999999999999999999 / 10 ^ 27\<bar>
        \<le> \<bar>9999999999999999999999999999 / 10 ^ 27 :: rat\<bar> * (11 / 10 ^ 28)"
    by simp
  with direct factor reverse q qf there backward show ?thesis
    by (intro conjI)
qed

text \<open>
  With a factor of zero the way back is lost: 5 bottles are 0 glasses, and the conversion
  of 0 glasses to bottles raises. Outside the exponent range no tolerance holds either:
  at 10 glasses a bottle the conversion of \<open>10 powi Emax\<close> bottles overflows, and at 1 glass
  a bottle the quantity \<open>3 / 2 * 10 powi (Emin - 27)\<close>, which is subnormal, comes back as
  \<open>2 * 10 powi (Emin - 27)\<close>.
\<close>

theorem convert_units_round_trip_tolerance_counterexample:
  "conversion_rows (conversion_db [bottle_to_glass 0]) 1 ''bottle'' ''glass'' = [bottle_to_glass 0]
   \<and> conversion_rows (conversion_db [bottle_to_glass 0]) 1 ''glass'' ''bottle'' = []
   \<and> convert_units_in_context (conversion_db [bottle_to_glass 0]) 1 ''bottle'' ''glass'' 5 = Inr 0
   \<and> convert_units_in_context (conversion_db [bottle_to_glass 0]) 1 ''glass'' ''bottle'' 0
        = Inl DecimalDivisionError
   \<and> convert_units_in_context (conversion_db [bottle_to_glass 10]) 1 ''bottle'' ''glass''
        (10 powi Emax) = Inl DecimalOverflow
   \<and> convert_units_in_context (conversion_db [bottle_to_glass 1]) 1 ''bottle'' ''glass''
        (3 / 2 * 10 powi (Emin - 27)) = Inr (2 * 10 powi (Emin - 27))
   \<and> convert_units_in_context (conversion_db [bottle_to_glass 1]) 1 ''glass'' ''bottle''
        (2 * 10 powi (Emin - 27)) = Inr (2 * 10 powi (Emin - 27))
   \<and> 2 * 10 powi (Emin - 27) \<noteq> (3 / 2 * 10 powi (Emin - 27) :: rat)"
proof -
  have rows: "conversion_rows (conversion_db [bottle_to_glass f]) 1 ''bottle'' ''glass''
        = [bottle_to_glass f]"
    "conversion_rows (conversion_db [bottle_to_glass f]) 1 ''glass'' ''bottle'' = []" for f
    by (simp_all add: sample_data conversion_rows_def conversion_key_def)
  have factor: "conversion_factor (bottle_to_glass f) = f" for f
    by (simp add: bottle_to_glass_def)
  have there: "convert_units_in_context (conversion_db [bottle_to_glass f]) 1 ''bottle'' ''glass'' q
      = context_round (q * f)" for f q
    by (simp add: convert_units_in_context_def rows factor decimal_mul_def)
  have backward: "convert_units_in_context (conversion_db [bottle_to_glass f]) 1 ''glass'' ''bottle'' q
      = (if f = 0 then Inl DecimalDivisionError else context_round (q / f))" for f q
    by (simp add: convert_units_in_context_def rows factor decimal_truediv_def)
  have zero_there: "convert_units_in_context (conversion_db [bottle_to_glass 0]) 1
        ''bottle'' ''glass'' 5 = Inr 0"
    by (simp add: there context_round_zero)
  have zero_return: "convert_units_in_context (conversion_db [bottle_to_glass 0]) 1
        ''glass'' ''bottle'' 0 = Inl DecimalDivisionError"
    by (simp add: backward)
  have overflow: "convert_units_in_context (conversion_db [bottle_to_glass 10]) 1
        ''bottle'' ''glass'' (10 powi Emax) = Inl DecimalOverflow"
    by (simp only: there context_round_overflow_sample)
  have "3 / 2 * 10 powi (Emin - 27) * 1 = (3 / 2 * 10 powi (Emin - 27) :: rat)"
    by simp
  then have tiny_there: "convert_units_in_context (conversion_db [bottle_to_glass 1]) 1
        ''bottle'' ''glass'' (3 / 2 * 10 powi (Emin - 27)) = Inr (2 * 10 powi (Emin - 27))"
    by (simp only: there context_round_subnormal_sample)
  have "2 * 10 powi (Emin - 27) / 1 = (2 * 10 powi (Emin - 27) :: rat)"
    by simp
  then have tiny_return: "convert_units_in_context (conversion_db [bottle_to_glass 1]) 1
        ''glass'' ''bottle'' (2 * 10 powi (Emin - 27)) = Inr (2 * 10 powi (Emin - 27))"
    by (simp only: backward context_round_subnormal_sample) simp
  have differ: "2 * 10 powi (Emin - 27) \<noteq> (3 / 2 * 10 powi (Emin - 27) :: rat)"
    by simp
  from rows [of 0] zero_there zero_return overflow tiny_there tiny_return differ
  show ?thesis
    by (intro conjI)
qed

section \<open>Properties of the stock ledger: release\<close>

text \<open>
  Claim C7, as amended. On a key with one row, \<^verbatim>\<open>release_reserved_stock\<close> returns
  \<^verbatim>\<open>True\<close> and sets \<open>reserved_quantity\<close> to \<open>max 0 (reserved_quantity - qty)\<close>; whatever
  the key held, a row found on it after the call has \<open>0 \<le> reserved_quantity\<close>. On a key
  with no row it raises nothing, leaves the database as it was, and returns \<^verbatim>\<open>False\<close>.
\<close>

theorem release_reserved_stock_floor:
  "(get_stock_level d pid lid = Inr (Some s) \<longrightarrow>
        fst (release_reserved_stock d pid lid qty) = Inr True
      \<and> get_stock_level (snd (release_reserved_stock d pid lid qty)) pid lid
          = Inr (Some (s\<lparr>reserved_quantity := max 0 (reserved_quantity s - qty)\<rparr>)))
   \<and> (\<forall>s'. get_stock_level (snd (release_reserved_stock d pid lid qty)) pid lid = Inr (Some s')
          \<longrightarrow> 0 \<le> reserved_quantity s')
   \<and> (get_stock_level d pid lid = Inr None \<longrightarrow>
        release_reserved_stock d pid lid qty = (Inr False, d))"
proof (intro conjI impI allI)
  assume row: "get_stock_level d pid lid = Inr (Some s)"
  show "fst (release_reserved_stock d pid lid qty) = Inr True"
    by (simp add: release_reserved_stock_row(1) [OF row])
  show "get_stock_level (snd (release_reserved_stock d pid lid qty)) pid lid
          = Inr (Some (s\<lparr>reserved_quantity := max 0 (reserved_quantity s - qty)\<rparr>))"
    by (rule release_reserved_stock_row(2) [OF row])
next
  fix s'
  assume after: "get_stock_level (snd (release_reserved_stock d pid lid qty)) pid lid
      = Inr (Some s')"
  show "0 \<le> reserved_quantity s'"
  proof (cases "\<exists>r. get_stock_level d pid lid = Inr (Some r)")
    case True
    then obtain r where "get_stock_level d pid lid = Inr (Some r)" ..
    from release_reserved_stock_row(2) [OF this, of qty] after show ?thesis
      by auto
  next
    case False
    then have "snd (release_reserved_stock d pid lid qty) = d"
      by (intro release_reserved_stock_other) simp
    with after False show ?thesis
      by simp
  qed
next
  assume "get_stock_level d pid lid = Inr None"
  then show "release_reserved_stock d pid lid qty = (Inr False, d)"
    by (simp add: release_reserved_stock_def)
qed

text \<open>
  With 3 reserved, a release of 5 leaves 0 reserved; in a database without stock rows a
  release of 2 returns \<^verbatim>\<open>False\<close> and changes nothing.
\<close>

theorem release_reserved_stock_floor_witness:
  "get_stock_level (shop 10 3) 1 1 = Inr (Some (stock_row 1 1 10 3))
   \<and> fst (release_reserved_stock (shop 10 3) 1 1 5) = Inr True
   \<and> get_stock_level (snd (release_reserved_stock (shop 10 3) 1 1 5)) 1 1
        = Inr (Some (stock_row 1 1 10 0))
   \<and> get_stock_level bare 1 1 = Inr None
   \<and> release_reserved_stock bare 1 1 2 = (Inr False, bare)"
proof -
  have row: "get_stock_level (shop 10 3) 1 1 = Inr (Some (stock_row 1 1 10 3))"
    by (simp add: sample_data ledger_defs)
  have none: "get_stock_level bare 1 1 = Inr None"
    by (simp add: sample_data ledger_defs)
  from release_reserved_stock_floor [of "shop 10 3" 1 1 "stock_row 1 1 10 3" 5]
       release_reserved_stock_floor [of bare 1 1 _ 2] row none
  show ?thesis
    by (simp add: stock_row_def)
qed

text \<open>
  The value returned on a key with no row is not the \<^verbatim>\<open>True\<close> of a release that took
  place: the early return of the function is \<^verbatim>\<open>False\<close>.
\<close>

theorem release_reserved_stock_floor_counterexample:
  "stock_rows bare 1 1 = []
   \<and> fst (release_reserved_stock bare 1 1 5) = Inr False
   \<and> fst (release_reserved_stock bare 1 1 5) \<noteq> Inr True"
  by (simp add: sample_data ledger_defs)

end
